theory Spec2Isabelle
  imports Main
begin

section \<open>Python strings and values\<close>

text \<open>
  A Python \<open>str\<close> is modelled as a \<open>string\<close>: one \<open>char\<close> per code point, for the
  code points below 256.  Python's \<open>None\<close> is the \<open>None\<close> of an option type, and an
  exception is the \<open>Inl\<close> of a sum.
\<close>

datatype error =
    AttributeError
  | IndexError
  | KeyError
  | NameError
  | TypeError
  | RecursionError
  | OtherError

text \<open>\<open>str.isalnum\<close> on one character: the table of the code points below 256.\<close>

definition isalnum :: "char \<Rightarrow> bool" where
  "isalnum c =
     (let n = (of_char c :: nat) in
        (48 \<le> n \<and> n \<le> 57) \<or> (65 \<le> n \<and> n \<le> 90) \<or> (97 \<le> n \<and> n \<le> 122) \<or>
        n = 170 \<or> n = 178 \<or> n = 179 \<or> n = 181 \<or> n = 185 \<or> n = 186 \<or>
        (188 \<le> n \<and> n \<le> 190) \<or> (192 \<le> n \<and> n \<le> 214) \<or>
        (216 \<le> n \<and> n \<le> 246) \<or> (248 \<le> n \<and> n \<le> 255))"

text \<open>
  \<open>s.replace(old, new)\<close> for a pattern of one character: every occurrence is replaced
  in place.  The sanitization of names below works on the characters alone, so these
  two functions are written for any alphabet.
\<close>

definition replace_char :: "'c \<Rightarrow> 'c \<Rightarrow> 'c list \<Rightarrow> 'c list" where
  "replace_char old new s = map (\<lambda>c. if c = old then new else c) s"

text \<open>
  \<open>s.replace(uu, u)\<close> for the pattern \<open>uu\<close> of twice the character \<open>u\<close>: one scan from
  the left over non-overlapping occurrences; the text already produced is not scanned
  again.
\<close>

fun replace_pair :: "'c \<Rightarrow> 'c list \<Rightarrow> 'c list" where
  "replace_pair u (a # b # cs) =
     (if a = u \<and> b = u then u # replace_pair u cs
      else a # replace_pair u (b # cs))"
| "replace_pair u cs = cs"

text \<open>\<open>str.startswith\<close>.\<close>

fun startswith :: "string \<Rightarrow> string \<Rightarrow> bool" where
  "startswith s [] = True"
| "startswith [] (p # ps) = False"
| "startswith (c # cs) (p # ps) = (c = p \<and> startswith cs ps)"

text \<open>\<open>p in s\<close> on strings: \<open>p\<close> occurs in \<open>s\<close>.\<close>

fun contains_str :: "string \<Rightarrow> string \<Rightarrow> bool" where
  "contains_str [] p = (p = [])"
| "contains_str (c # cs) p = (startswith (c # cs) p \<or> contains_str cs p)"

text \<open>\<open>sep.join(xs)\<close> on a list of strings.\<close>

fun join :: "string \<Rightarrow> string list \<Rightarrow> string" where
  "join sep [] = []"
| "join sep [x] = x"
| "join sep (x # y # ys) = x @ sep @ join sep (y # ys)"

text \<open>The decimal text of an integer, as an f-string prints it.\<close>

definition digit_char :: "nat \<Rightarrow> char" where
  "digit_char d = char_of (48 + d)"

fun digits :: "nat \<Rightarrow> string" where
  "digits n = (if n < 10 then [digit_char n] else digits (n div 10) @ [digit_char (n mod 10)])"

declare digits.simps [simp del]

definition str_int :: "int \<Rightarrow> string" where
  "str_int i = (if i < 0 then CHR ''-'' # digits (nat (- i)) else digits (nat i))"

section \<open>MaltNode.get_source_name\<close>

text \<open>
  \<^verbatim>\<open>
  def get_source_name(self):
      name = self.name.replace('.','_')
      name = '_' + ''.join(char for char in name if char.isalnum() or char == '_')
      return name.replace('__','_')
  \<close>
\<close>

text \<open>
  The method with its three character tests as arguments: \<open>str.isalnum\<close>, the dot
  and the underscore.  It is the same function for every alphabet and every table of
  alphanumeric characters.
\<close>

definition get_source_name_on :: "('c \<Rightarrow> bool) \<Rightarrow> 'c \<Rightarrow> 'c \<Rightarrow> 'c list \<Rightarrow> 'c list" where
  "get_source_name_on alnum dot underscore name =
     replace_pair underscore
       (underscore # filter (\<lambda>char. alnum char \<or> char = underscore)
                       (replace_char dot underscore name))"

definition get_source_name :: "string \<Rightarrow> string" where
  "get_source_name name = get_source_name_on isalnum (CHR ''.'') (CHR ''_'') name"

text \<open>
  An identifier of the target languages, in ASCII: a letter or an underscore, then
  letters, digits and underscores.  (GLSL has no other identifiers.)
\<close>

definition identifier_char :: "char \<Rightarrow> bool" where
  "identifier_char c =
     (let n = (of_char c :: nat) in
        (48 \<le> n \<and> n \<le> 57) \<or> (65 \<le> n \<and> n \<le> 90) \<or> (97 \<le> n \<and> n \<le> 122) \<or> n = 95)"

definition is_digit :: "char \<Rightarrow> bool" where
  "is_digit c = (48 \<le> (of_char c :: nat) \<and> (of_char c :: nat) \<le> 57)"

definition is_identifier :: "string \<Rightarrow> bool" where
  "is_identifier s = (s \<noteq> [] \<and> \<not> is_digit (hd s) \<and> list_all identifier_char s)"

section \<open>The transpiler backends\<close>

datatype transpiler = GLSLTranspiler | PythonTranspiler

abbreviation dq :: char where "dq \<equiv> CHR 0x22"
abbreviation nl :: char where "nl \<equiv> CHR 0x0A"

fun asignment :: "transpiler \<Rightarrow> string \<Rightarrow> string \<Rightarrow> string" where
  "asignment GLSLTranspiler name asg = name @ '' = '' @ asg @ '';'' @ [nl]"
| "asignment PythonTranspiler name asg = name @ '' = '' @ asg @ [nl]"

text \<open>
  \<open>initialization\<close> defaults to \<open>None\<close>.  The GLSL backend tests its truth value, so the
  empty string counts as absent there; the Python backend tests \<open>is None\<close>.
\<close>

fun declaration_stmt :: "transpiler \<Rightarrow> string \<Rightarrow> int \<Rightarrow> string \<Rightarrow> string option \<Rightarrow> string" where
  "declaration_stmt GLSLTranspiler type sz name initialization =
     (let array = (if sz = 0 then [] else ''['' @ str_int sz @ '']'');
          asg = (case initialization of
                   None \<Rightarrow> []
                 | Some i \<Rightarrow> if i = [] then [] else '' = '' @ i)
      in type @ '' '' @ name @ array @ asg @ '';'' @ [nl])"
| "declaration_stmt PythonTranspiler type sz name initialization =
     asignment PythonTranspiler name (case initialization of None \<Rightarrow> ''None'' | Some i \<Rightarrow> i)"

fun global_reference :: "transpiler \<Rightarrow> string \<Rightarrow> string \<Rightarrow> string" where
  "global_reference GLSLTranspiler node_name parameter_name =
     ''U_0'' @ node_name @ ''_0_'' @ parameter_name"
| "global_reference PythonTranspiler node_name parameter_name =
     ''PARAMETERS['' @ [dq] @ node_name @ [dq] @ '']['' @ [dq] @ parameter_name @ [dq] @ '']''"

fun global_declaration :: "transpiler \<Rightarrow> string \<Rightarrow> int \<Rightarrow> string \<Rightarrow> string option \<Rightarrow> string" where
  "global_declaration GLSLTranspiler type sz name initialization =
     ''uniform '' @ declaration_stmt GLSLTranspiler type sz name initialization"
| "global_declaration PythonTranspiler type sz name initialization = []"

fun parameter_reference :: "transpiler \<Rightarrow> string \<Rightarrow> string \<Rightarrow> string" where
  "parameter_reference GLSLTranspiler node_name parameter_name =
     node_name @ ''_0_'' @ parameter_name"
| "parameter_reference PythonTranspiler node_name parameter_name =
     node_name @ ''_parameters['' @ [dq] @ parameter_name @ [dq] @ '']''"

fun io_parameter_reference :: "transpiler \<Rightarrow> string \<Rightarrow> string" where
  "io_parameter_reference GLSLTranspiler parameter_name = parameter_name"
| "io_parameter_reference PythonTranspiler parameter_name =
     ''IO['' @ [dq] @ parameter_name @ [dq] @ '']''"

fun is_instantiable_type :: "transpiler \<Rightarrow> string \<Rightarrow> bool" where
  "is_instantiable_type GLSLTranspiler type = (\<not> startswith type ''sampler'')"
| "is_instantiable_type PythonTranspiler type = True"

fun result :: "transpiler \<Rightarrow> string \<Rightarrow> string" where
  "result GLSLTranspiler r = ''return '' @ r @ '';'' @ [nl]"
| "result PythonTranspiler r = ''return '' @ r @ [nl]"

text \<open>
  A socket name that cannot be taken for the separator \<open>_0_\<close> of the GLSL references,
  or for its end: it has no \<open>_0_\<close> inside and does not begin with \<open>0_\<close>.
\<close>

definition plain_socket_name :: "string \<Rightarrow> bool" where
  "plain_socket_name s = (\<not> contains_str s ''_0_'' \<and> \<not> startswith s ''0_'')"

section \<open>The node graph\<close>

text \<open>
  Sockets and nodes are objects of the host; the model names them by identifiers and
  keeps their attributes in the tree.  A \<open>MaltSocket\<close> carries \<open>data_type\<close> and
  \<open>array_size\<close>; a socket of a host node (the two sockets of a \<open>NodeReroute\<close>) is a
  plain \<open>NodeSocket\<close> without these attributes, so reading them raises
  \<open>AttributeError\<close>.
\<close>

type_synonym socket_id = nat
type_synonym node_id = nat

record link =
  from_socket :: socket_id
  to_socket :: socket_id

record socket =
  sock_name :: string
  sock_node :: node_id
  is_output :: bool
  is_malt_socket :: bool
  data_type :: string
  array_size :: int

record parameter =
  p_name :: string
  p_type :: string
  p_size :: int
  p_io :: string

record function_descr =
  f_name :: string
  f_type :: string
  f_parameters :: "parameter list"

record member =
  m_name :: string
  m_type :: string
  m_size :: int

datatype node_class =
    MaltStructNode string
  | MaltFunctionNode string
  | MaltIONode string bool
  | MaltInlineNode string
  | MaltArrayIndexNode
  | NodeReroute

text \<open>
  The argument of a class is the node's configuration: \<open>struct_type\<close>,
  \<open>function_type\<close>, \<open>io_type\<close> with \<open>is_output\<close>, and the inline \<open>code\<close>.
\<close>

record node =
  node_name :: string
  node_class :: node_class
  inputs :: "socket_id list"
  outputs :: "socket_id list"
  node_disable_updates :: bool

record pipeline_graph =
  language :: string
  structs :: "string \<rightharpoonup> member list"
  graph_functions :: "string \<rightharpoonup> function_descr"
  graph_IO :: "string \<rightharpoonup> function_descr"

record tree =
  nodes :: "node_id list"
  node_at :: "node_id \<Rightarrow> node"
  socket_at :: "socket_id \<Rightarrow> socket"
  links :: "link list"
  disable_updates :: bool
  pipeline :: "pipeline_graph option"
  library_path :: "string option"
  library_structs :: "string \<rightharpoonup> member list"
  library_functions :: "string \<rightharpoonup> function_descr"

text \<open>
  \<open>socket.links\<close> is the host's view of the tree's links that start or end at the
  socket, in the order of the tree; \<open>socket.is_linked\<close> says that there is one;
  \<open>link.from_node\<close> is the node of \<open>link.from_socket\<close>.
\<close>

definition socket_links :: "tree \<Rightarrow> socket_id \<Rightarrow> link list" where
  "socket_links t s = filter (\<lambda>l. from_socket l = s \<or> to_socket l = s) (links t)"

definition is_linked :: "tree \<Rightarrow> socket_id \<Rightarrow> bool" where
  "is_linked t s = (socket_links t s \<noteq> [])"

definition from_node :: "tree \<Rightarrow> link \<Rightarrow> node_id" where
  "from_node t l = sock_node (socket_at t (from_socket l))"

definition is_reroute :: "tree \<Rightarrow> socket_id \<Rightarrow> bool" where
  "is_reroute t s = (node_class (node_at t (sock_node (socket_at t s))) = NodeReroute)"

section \<open>MaltSocket.get_linked\<close>

text \<open>
  \<^verbatim>\<open>
  def get_linked(self):
      def get_linked_internal(socket):
          if len(socket.links) == 0:
              return None
          else:
              link = socket.links[0]
              linked = link.to_socket if socket.is_output else link.from_socket
              if isinstance(linked.node, bpy.types.NodeReroute):
                  sockets = linked.node.inputs if linked.is_output else linked.node.outputs
                  if len(sockets) == 0:
                      return None
                  return get_linked_internal(sockets[0])
              else:
                  return linked
      return get_linked_internal(self)
  \<close>
  Every hop through a reroute node is one more nested call, and the interpreter raises
  \<open>RecursionError\<close> when the calls nest deeper than its recursion limit.  The number
  \<open>k\<close> is the depth that is left; the source has no other bound.  \<open>Inr None\<close> is the
  value \<open>None\<close> of the source and \<open>Inr (Some s)\<close> the socket \<open>s\<close>.
\<close>

fun get_linked_internal :: "nat \<Rightarrow> tree \<Rightarrow> socket_id \<Rightarrow> error + socket_id option" where
  "get_linked_internal 0 t socket = Inl RecursionError"
| "get_linked_internal (Suc k) t socket =
     (case socket_links t socket of
        [] \<Rightarrow> Inr None
      | link # _ \<Rightarrow>
          (let linked = (if is_output (socket_at t socket) then to_socket link else from_socket link)
           in if is_reroute t linked then
                (case (if is_output (socket_at t linked)
                       then inputs (node_at t (sock_node (socket_at t linked)))
                       else outputs (node_at t (sock_node (socket_at t linked)))) of
                   [] \<Rightarrow> Inr None
                 | s0 # _ \<Rightarrow> get_linked_internal k t s0)
              else Inr (Some linked)))"

definition get_linked :: "nat \<Rightarrow> tree \<Rightarrow> socket_id \<Rightarrow> error + socket_id option" where
  "get_linked k t socket = get_linked_internal k t socket"

text \<open>
  The hop of one round of the recursion: the socket on which \<open>get_linked_internal\<close>
  calls itself, when it does.
\<close>

definition reroute_hop :: "tree \<Rightarrow> socket_id \<Rightarrow> socket_id option" where
  "reroute_hop t socket =
     (case socket_links t socket of
        [] \<Rightarrow> None
      | link # _ \<Rightarrow>
          (let linked = (if is_output (socket_at t socket) then to_socket link else from_socket link)
           in if is_reroute t linked then
                (case (if is_output (socket_at t linked)
                       then inputs (node_at t (sock_node (socket_at t linked)))
                       else outputs (node_at t (sock_node (socket_at t linked)))) of
                   [] \<Rightarrow> None
                 | s0 # _ \<Rightarrow> Some s0)
              else None))"

text \<open>\<open>socket.get_linked()\<close> in the methods below, which pass the depth that is left.\<close>

definition linked_socket :: "nat \<Rightarrow> tree \<Rightarrow> socket_id \<Rightarrow> error + socket_id option" where
  "linked_socket k t socket = get_linked k t socket"

section \<open>Link normalization in MaltTree.update\<close>

text \<open>
  \<^verbatim>\<open>
  for link in self.links:
      try:
          if (link.from_socket.data_type != link.to_socket.data_type or
              link.from_socket.array_size != link.to_socket.array_size):
              self.links.remove(link)
      except:
          pass
  \<close>
  The host's iterator over \<open>self.links\<close> has moved on to the next link before the body
  runs, so the loop visits every link that the tree has at its start, and the body
  removes the link in hand.  A socket without \<open>data_type\<close> raises in the comparison;
  the handler swallows it and the link stays.
\<close>

definition get_data_type :: "tree \<Rightarrow> socket_id \<Rightarrow> error + string" where
  "get_data_type t s =
     (if is_malt_socket (socket_at t s) then Inr (data_type (socket_at t s)) else Inl AttributeError)"

definition get_array_size :: "tree \<Rightarrow> socket_id \<Rightarrow> error + int" where
  "get_array_size t s =
     (if is_malt_socket (socket_at t s) then Inr (array_size (socket_at t s)) else Inl AttributeError)"

definition link_mismatch :: "tree \<Rightarrow> link \<Rightarrow> error + bool" where
  "link_mismatch t l =
     (case get_data_type t (from_socket l) of
        Inl e \<Rightarrow> Inl e
      | Inr a \<Rightarrow>
          (case get_data_type t (to_socket l) of
             Inl e \<Rightarrow> Inl e
           | Inr b \<Rightarrow>
               if a \<noteq> b then Inr True
               else (case get_array_size t (from_socket l) of
                       Inl e \<Rightarrow> Inl e
                     | Inr x \<Rightarrow>
                         (case get_array_size t (to_socket l) of
                            Inl e \<Rightarrow> Inl e
                          | Inr y \<Rightarrow> Inr (x \<noteq> y)))))"

fun remove_mismatched :: "tree \<Rightarrow> link list \<Rightarrow> tree" where
  "remove_mismatched t [] = t"
| "remove_mismatched t (l # ls) =
     remove_mismatched
       (case link_mismatch t l of
          Inl e \<Rightarrow> t
        | Inr b \<Rightarrow> if b then t\<lparr>links := remove1 l (links t)\<rparr> else t)
       ls"

definition normalize_links :: "tree \<Rightarrow> tree" where
  "normalize_links t = remove_mismatched t (links t)"

definition link_type_safe :: "tree \<Rightarrow> link \<Rightarrow> bool" where
  "link_type_safe t l =
     (is_malt_socket (socket_at t (from_socket l)) \<and>
      is_malt_socket (socket_at t (to_socket l)) \<and>
      data_type (socket_at t (from_socket l)) = data_type (socket_at t (to_socket l)) \<and>
      array_size (socket_at t (from_socket l)) = array_size (socket_at t (to_socket l)))"

section \<open>The call operation of the backends\<close>

text \<open>
  \<^verbatim>\<open>
  def call(self, function, name, parameters=[]):
      src = ''
      for i, parameter in enumerate(function['parameters']):
          if parameter['io'] in ['out','inout']:
              initialization = parameters[i]
              src_reference = self.parameter_reference(name, parameter['name'])
              src += self.declaration(parameter['type'], parameter['size'], src_reference, initialization)
              parameters[i] = src_reference
      initialization = f'{function["name"]}({",".join(parameters)})'
      if function['type'] != 'void' and self.is_instantiable_type(function['type']):
          src += self.declaration(function['type'], 0, self.parameter_reference(name, 'result'), initialization)
      else:
          src += initialization + ';\n'
      return src
  \<close>
  An entry of \<open>parameters\<close> is an expression or \<open>None\<close>.  Reading past the end of the
  list raises \<open>IndexError\<close>, and \<open>join\<close> raises \<open>TypeError\<close> on an entry that is
  still \<open>None\<close>.
\<close>

definition is_out_parameter :: "parameter \<Rightarrow> bool" where
  "is_out_parameter parameter = (p_io parameter = ''out'' \<or> p_io parameter = ''inout'')"

definition is_in_parameter :: "parameter \<Rightarrow> bool" where
  "is_in_parameter parameter =
     (p_io parameter = [] \<or> p_io parameter = ''in'' \<or> p_io parameter = ''inout'')"

fun glsl_call_loop ::
  "string \<Rightarrow> nat \<Rightarrow> parameter list \<Rightarrow> string \<Rightarrow> string option list \<Rightarrow>
   error + (string \<times> string option list)" where
  "glsl_call_loop name i [] src parameters = Inr (src, parameters)"
| "glsl_call_loop name i (parameter # rest) src parameters =
     (if is_out_parameter parameter then
        (if i < length parameters then
           (let initialization = parameters ! i;
                src_reference = parameter_reference GLSLTranspiler name (p_name parameter)
            in glsl_call_loop name (Suc i) rest
                 (src @ declaration_stmt GLSLTranspiler (p_type parameter) (p_size parameter)
                          src_reference initialization)
                 (parameters[i := Some src_reference]))
         else Inl IndexError)
      else glsl_call_loop name (Suc i) rest src parameters)"

definition join_parameters :: "string option list \<Rightarrow> error + string" where
  "join_parameters parameters =
     (case those parameters of None \<Rightarrow> Inl TypeError | Some xs \<Rightarrow> Inr (join '','' xs))"

definition glsl_call :: "function_descr \<Rightarrow> string \<Rightarrow> string option list \<Rightarrow> error + string" where
  "glsl_call function name parameters =
     (case glsl_call_loop name 0 (f_parameters function) [] parameters of
        Inl e \<Rightarrow> Inl e
      | Inr (src, parameters') \<Rightarrow>
          (case join_parameters parameters' of
             Inl e \<Rightarrow> Inl e
           | Inr joined \<Rightarrow>
               (let initialization = f_name function @ ''('' @ joined @ '')''
                in if f_type function \<noteq> ''void'' \<and> is_instantiable_type GLSLTranspiler (f_type function)
                   then Inr (src @ declaration_stmt GLSLTranspiler (f_type function) 0
                                     (parameter_reference GLSLTranspiler name ''result'')
                                     (Some initialization))
                   else Inr (src @ initialization @ '';'' @ [nl]))))"

fun python_call_loop ::
  "string \<Rightarrow> nat \<Rightarrow> parameter list \<Rightarrow> string \<Rightarrow> string option list \<Rightarrow> error + string" where
  "python_call_loop name i [] src parameters = Inr src"
| "python_call_loop name i (parameter # rest) src parameters =
     (if i < length parameters then
        (let initialization = (case parameters ! i of None \<Rightarrow> ''None'' | Some e \<Rightarrow> e);
             parameter_reference = parameter_reference PythonTranspiler name (p_name parameter)
         in python_call_loop name (Suc i) rest
              (src @ parameter_reference @ '' = '' @ initialization @ [nl]) parameters)
      else Inl IndexError)"

definition python_call :: "function_descr \<Rightarrow> string \<Rightarrow> string option list \<Rightarrow> error + string" where
  "python_call function name parameters =
     (case python_call_loop name 0 (f_parameters function)
             (name @ ''_parameters = {}'' @ [nl]) parameters of
        Inl e \<Rightarrow> Inl e
      | Inr src \<Rightarrow>
          Inr (src @ ''run_node('' @ [dq] @ name @ [dq] @ '', '' @ [dq] @ f_name function @ [dq] @
                 '', '' @ name @ ''_parameters)'' @ [nl]))"

fun call :: "transpiler \<Rightarrow> function_descr \<Rightarrow> string \<Rightarrow> string option list \<Rightarrow> error + string" where
  "call GLSLTranspiler function name parameters = glsl_call function name parameters"
| "call PythonTranspiler function name parameters = python_call function name parameters"

text \<open>The emission rule in the words of the specification.\<close>

definition out_declarations :: "string \<Rightarrow> parameter list \<Rightarrow> string option list \<Rightarrow> string" where
  "out_declarations node_id ps args =
     concat (map (\<lambda>(p, a). declaration_stmt GLSLTranspiler (p_type p) (p_size p)
                              (parameter_reference GLSLTranspiler node_id (p_name p)) a)
                 (filter (\<lambda>(p, a). is_out_parameter p) (zip ps args)))"

definition rewritten_arguments :: "string \<Rightarrow> parameter list \<Rightarrow> string option list \<Rightarrow> string list" where
  "rewritten_arguments node_id ps args =
     map (\<lambda>(p, a). if is_out_parameter p then parameter_reference GLSLTranspiler node_id (p_name p)
                    else the a)
         (zip ps args)"

definition call_spec :: "function_descr \<Rightarrow> string \<Rightarrow> string option list \<Rightarrow> string" where
  "call_spec function node_id args =
     out_declarations node_id (f_parameters function) args @
     (let call_text = f_name function @ ''('' @
                      join '','' (rewritten_arguments node_id (f_parameters function) args) @ '')''
      in if f_type function \<noteq> ''void'' \<and> is_instantiable_type GLSLTranspiler (f_type function)
         then declaration_stmt GLSLTranspiler (f_type function) 0
                (parameter_reference GLSLTranspiler node_id ''result'') (Some call_text)
         else call_text @ '';'' @ [nl])"

definition call_arguments_ok :: "function_descr \<Rightarrow> string option list \<Rightarrow> bool" where
  "call_arguments_ok function args =
     (length args = length (f_parameters function) \<and>
      list_all (\<lambda>(p, a). is_out_parameter p \<or> a \<noteq> None) (zip (f_parameters function) args))"

definition bind_err :: "error + 'a \<Rightarrow> ('a \<Rightarrow> error + 'b) \<Rightarrow> error + 'b" where
  "bind_err m f = (case m of Inl e \<Rightarrow> Inl e | Inr x \<Rightarrow> f x)"

text \<open>How an f-string or \<open>str.format\<close> prints a value that may be \<open>None\<close>.\<close>

definition py_str :: "string option \<Rightarrow> string" where
  "py_str v = (case v of None \<Rightarrow> ''None'' | Some s \<Rightarrow> s)"

text \<open>\<open>str.splitlines(keepends)\<close>, \<open>str.isspace\<close> and \<open>textwrap.indent\<close>.\<close>

definition is_linebreak :: "char \<Rightarrow> bool" where
  "is_linebreak c = ((of_char c :: nat) \<in> {10, 11, 12, 13, 28, 29, 30, 133})"

definition isspace :: "char \<Rightarrow> bool" where
  "isspace c = ((of_char c :: nat) \<in> {9, 10, 11, 12, 13, 28, 29, 30, 31, 32, 133, 160})"

fun splitlines_from :: "bool \<Rightarrow> string \<Rightarrow> string \<Rightarrow> string list" where
  "splitlines_from keepends cur [] = (if cur = [] then [] else [cur])"
| "splitlines_from keepends cur [c] =
     (if is_linebreak c then [if keepends then cur @ [c] else cur] else [cur @ [c]])"
| "splitlines_from keepends cur (c # d # ds) =
     (if c = CHR 0x0D \<and> d = CHR 0x0A then
        (if keepends then cur @ [c, d] else cur) # splitlines_from keepends [] ds
      else if is_linebreak c then
        (if keepends then cur @ [c] else cur) # splitlines_from keepends [] (d # ds)
      else splitlines_from keepends (cur @ [c]) (d # ds))"

definition splitlines :: "bool \<Rightarrow> string \<Rightarrow> string list" where
  "splitlines keepends s = splitlines_from keepends [] s"

definition indent :: "string \<Rightarrow> string \<Rightarrow> string" where
  "indent text prefix =
     concat (map (\<lambda>line. if list_ex (\<lambda>c. \<not> isspace c) line then prefix @ line else line)
                 (splitlines True text))"

fun scoped :: "transpiler \<Rightarrow> string \<Rightarrow> string" where
  "scoped GLSLTranspiler code = ''{'' @ [nl] @ indent code [CHR 0x09] @ ''}'' @ [nl]"
| "scoped PythonTranspiler code = ''if True:'' @ [nl] @ indent code [CHR 0x09]"

section \<open>Source references of sockets\<close>

definition get_source_language :: "tree \<Rightarrow> error + string" where
  "get_source_language t =
     (case pipeline t of None \<Rightarrow> Inl AttributeError | Some g \<Rightarrow> Inr (language g))"

text \<open>
  \<open>get_transpiler\<close> returns \<open>None\<close> for a language that is neither \<open>GLSL\<close> nor
  \<open>Python\<close>; calling a method of that value raises \<open>AttributeError\<close>.
\<close>

definition get_transpiler :: "tree \<Rightarrow> error + transpiler option" where
  "get_transpiler t =
     bind_err (get_source_language t) (\<lambda>l.
       Inr (if l = ''GLSL'' then Some GLSLTranspiler
            else if l = ''Python'' then Some PythonTranspiler
            else None))"

definition the_transpiler :: "transpiler option \<Rightarrow> error + transpiler" where
  "the_transpiler tr = (case tr of None \<Rightarrow> Inl AttributeError | Some x \<Rightarrow> Inr x)"

definition is_malt_node :: "tree \<Rightarrow> node_id \<Rightarrow> bool" where
  "is_malt_node t n = (node_class (node_at t n) \<noteq> NodeReroute)"

definition node_source_name :: "tree \<Rightarrow> node_id \<Rightarrow> error + string" where
  "node_source_name t n =
     (if is_malt_node t n then Inr (get_source_name (node_name (node_at t n)))
      else Inl AttributeError)"

text \<open>
  \<^verbatim>\<open>
  def get_source_global_reference(self):
      return self.id_data.get_transpiler().global_reference(self.node.get_source_name(), self.name)
  \<close>
\<close>

definition get_source_global_reference :: "tree \<Rightarrow> socket_id \<Rightarrow> error + string" where
  "get_source_global_reference t socket =
     bind_err (get_transpiler t) (\<lambda>tr.
     bind_err (the_transpiler tr) (\<lambda>transpiler.
     bind_err (node_source_name t (sock_node (socket_at t socket))) (\<lambda>source_name.
       Inr (global_reference transpiler source_name (sock_name (socket_at t socket))))))"

text \<open>\<open>collection[name]\<close> on the sockets of a node: the first socket of that name.\<close>

definition find_socket :: "tree \<Rightarrow> socket_id list \<Rightarrow> string \<Rightarrow> error + socket_id" where
  "find_socket t sockets name =
     (case filter (\<lambda>s. sock_name (socket_at t s) = name) sockets of
        [] \<Rightarrow> Inl KeyError
      | s # _ \<Rightarrow> Inr s)"

text \<open>
  \<open>get_function\<close> of a function node looks in the pipeline graph first and in the
  library second; that of an IO node looks in \<open>graph_IO\<close>.
\<close>

definition get_function :: "tree \<Rightarrow> string \<Rightarrow> error + function_descr" where
  "get_function t function_type =
     (case pipeline t of
        None \<Rightarrow> Inl AttributeError
      | Some graph \<Rightarrow>
          (case graph_functions graph function_type of
             Some f \<Rightarrow> Inr f
           | None \<Rightarrow>
               (case library_functions t function_type of
                  None \<Rightarrow> Inl KeyError
                | Some f \<Rightarrow> Inr f)))"

definition get_io_function :: "tree \<Rightarrow> string \<Rightarrow> error + function_descr" where
  "get_io_function t io_type =
     (case pipeline t of
        None \<Rightarrow> Inl AttributeError
      | Some graph \<Rightarrow>
          (case graph_IO graph io_type of None \<Rightarrow> Inl KeyError | Some f \<Rightarrow> Inr f))"

text \<open>
  The reference of the socket that \<open>socket\<close> is linked to, or the global reference of
  \<open>socket\<close> when it is unlinked:
  \<^verbatim>\<open>
  initialization = socket.get_source_global_reference()
  if socket.get_linked():
      initialization = socket.get_linked().get_source_reference()
  \<close>
  The argument \<open>ref\<close> stands for \<open>get_source_reference\<close> in the functions that call it
  back, and \<open>k\<close> is the depth that is left for \<open>get_linked\<close>.
\<close>

definition global_or_linked_reference ::
  "(socket_id \<Rightarrow> error + string option) \<Rightarrow> nat \<Rightarrow> tree \<Rightarrow> socket_id \<Rightarrow> error + string option" where
  "global_or_linked_reference ref k t socket =
     bind_err (get_source_global_reference t socket) (\<lambda>initialization.
     bind_err (linked_socket k t socket) (\<lambda>linked.
       case linked of None \<Rightarrow> Inr (Some initialization) | Some l \<Rightarrow> ref l))"

text \<open>
  \<^verbatim>\<open>
  linked = socket.get_linked()
  if linked:
      initialization = linked.get_source_reference()
  else:
      initialization = socket.get_source_global_reference()
  \<close>
\<close>

definition linked_or_global_reference ::
  "(socket_id \<Rightarrow> error + string option) \<Rightarrow> nat \<Rightarrow> tree \<Rightarrow> socket_id \<Rightarrow> error + string option" where
  "linked_or_global_reference ref k t socket =
     bind_err (linked_socket k t socket) (\<lambda>linked.
       case linked of
         Some l \<Rightarrow> ref l
       | None \<Rightarrow> bind_err (get_source_global_reference t socket) (\<lambda>g. Inr (Some g)))"

section \<open>MaltFunctionNode\<close>

text \<open>
  \<^verbatim>\<open>
  def get_source_code(self, transpiler):
      function = self.get_function()
      source_name = self.get_source_name()
      parameters = []
      for parameter in function['parameters']:
          initialization = None
          if parameter['io'] in ['','in','inout']:
              socket = self.inputs[parameter['name']]
              linked = socket.get_linked()
              if linked:
                  initialization = linked.get_source_reference()
              else:
                  initialization = socket.get_source_global_reference()
          parameters.append(initialization)
      return transpiler.call(function, source_name, parameters)
  \<close>
\<close>

fun function_parameters ::
  "(socket_id \<Rightarrow> error + string option) \<Rightarrow> nat \<Rightarrow> tree \<Rightarrow> node_id \<Rightarrow> parameter list \<Rightarrow>
   error + string option list" where
  "function_parameters ref k t n [] = Inr []"
| "function_parameters ref k t n (parameter # rest) =
     bind_err
       (if is_in_parameter parameter then
          bind_err (find_socket t (inputs (node_at t n)) (p_name parameter)) (\<lambda>socket.
            linked_or_global_reference ref k t socket)
        else Inr None)
       (\<lambda>initialization.
          bind_err (function_parameters ref k t n rest) (\<lambda>parameters.
            Inr (initialization # parameters)))"

definition function_get_source_code ::
  "(socket_id \<Rightarrow> error + string option) \<Rightarrow> nat \<Rightarrow> tree \<Rightarrow> node_id \<Rightarrow> string \<Rightarrow> transpiler option \<Rightarrow>
   error + string" where
  "function_get_source_code ref k t n function_type tr =
     bind_err (get_function t function_type) (\<lambda>function.
     bind_err (node_source_name t n) (\<lambda>source_name.
     bind_err (function_parameters ref k t n (f_parameters function)) (\<lambda>parameters.
     bind_err (the_transpiler tr) (\<lambda>transpiler.
       call transpiler function source_name parameters))))"

text \<open>\<open>source.splitlines()[-1].split('=')[-1].split(';')[0]\<close>\<close>

definition last_expression :: "string \<Rightarrow> error + string" where
  "last_expression source =
     (case splitlines False source of
        [] \<Rightarrow> Inl IndexError
      | l # ls \<Rightarrow>
          Inr (takeWhile (\<lambda>c. c \<noteq> CHR '';'')
                 (rev (takeWhile (\<lambda>c. c \<noteq> CHR ''='') (rev (last (l # ls)))))))"

section \<open>MaltSocket.get_source_reference\<close>

text \<open>\<open>node.get_source_socket_reference(socket)\<close>, by the class of the node.\<close>

definition get_source_socket_reference ::
  "(socket_id \<Rightarrow> error + string option) \<Rightarrow> nat \<Rightarrow> tree \<Rightarrow> socket_id \<Rightarrow> error + string" where
  "get_source_socket_reference ref k t socket =
     (let n = sock_node (socket_at t socket); name = sock_name (socket_at t socket) in
      case node_class (node_at t n) of
        MaltStructNode struct_type \<Rightarrow>
          bind_err (node_source_name t n) (\<lambda>source_name.
            if name = struct_type then Inr source_name
            else Inr (source_name @ ''.'' @ name))
      | MaltFunctionNode function_type \<Rightarrow>
          bind_err (get_transpiler t) (\<lambda>tr.
          bind_err (the_transpiler tr) (\<lambda>transpiler.
            if is_instantiable_type transpiler (data_type (socket_at t socket)) then
              bind_err (node_source_name t n) (\<lambda>source_name.
                Inr (parameter_reference transpiler source_name name))
            else
              bind_err (function_get_source_code ref k t n function_type tr) last_expression))
      | MaltIONode io_type is_out \<Rightarrow>
          bind_err (get_transpiler t) (\<lambda>tr.
          bind_err (the_transpiler tr) (\<lambda>transpiler.
            Inr (io_parameter_reference transpiler name)))
      | MaltInlineNode code \<Rightarrow>
          bind_err (node_source_name t n) (\<lambda>source_name. Inr (source_name @ ''_0_'' @ name))
      | MaltArrayIndexNode \<Rightarrow>
          bind_err (node_source_name t n) (\<lambda>source_name. Inr (source_name @ ''_0_'' @ name))
      | NodeReroute \<Rightarrow> Inl AttributeError)"

text \<open>
  \<^verbatim>\<open>
  def is_instantiable_type(self):
      return self.data_type.startswith('sampler') == False

  def get_source_reference(self):
      if not self.is_instantiable_type() and not self.is_output and self.get_linked() is not None:
          self.get_linked().get_source_reference()
      else:
          return self.node.get_source_socket_reference(self)
  \<close>
  The first branch has no \<open>return\<close>: the call on the linked socket is made, its value
  is dropped, and the method returns \<open>None\<close>.
\<close>

definition socket_is_instantiable_type :: "tree \<Rightarrow> socket_id \<Rightarrow> bool" where
  "socket_is_instantiable_type t socket = (\<not> startswith (data_type (socket_at t socket)) ''sampler'')"

definition get_source_reference_step ::
  "(socket_id \<Rightarrow> error + string option) \<Rightarrow> nat \<Rightarrow> tree \<Rightarrow> socket_id \<Rightarrow> error + string option" where
  "get_source_reference_step ref k t socket =
     (if \<not> is_malt_socket (socket_at t socket) then Inl AttributeError
      else if \<not> socket_is_instantiable_type t socket \<and> \<not> is_output (socket_at t socket) then
        bind_err (linked_socket k t socket) (\<lambda>linked.
          case linked of
            Some l \<Rightarrow> bind_err (ref l) (\<lambda>dropped. Inr None)
          | None \<Rightarrow> bind_err (get_source_socket_reference ref k t socket) (\<lambda>r. Inr (Some r)))
      else bind_err (get_source_socket_reference ref k t socket) (\<lambda>r. Inr (Some r)))"

text \<open>
  The calls nest along the graph, so the depth of the recursion is bounded by a number
  \<open>k\<close>, as the recursion limit of the interpreter bounds it.
\<close>

primrec get_source_reference :: "nat \<Rightarrow> tree \<Rightarrow> socket_id \<Rightarrow> error + string option" where
  "get_source_reference 0 t socket = Inl RecursionError"
| "get_source_reference (Suc k) t socket =
     get_source_reference_step (get_source_reference k t) (Suc k) t socket"

section \<open>MaltIONode.get_source_code\<close>

text \<open>
  \<^verbatim>\<open>
  def get_source_code(self, transpiler):
      code = ''
      if self.is_output:
          function = self.get_function()
          for socket in self.inputs:
              if socket.name == 'result':
                  continue
              initialization = socket.get_source_global_reference()
              if socket.get_linked():
                  initialization = socket.get_linked().get_source_reference()
              code += transpiler.asignment(socket.get_source_reference(), initialization)

          if function['type'] != 'void':
              result = socket.get_source_global_reference()
              linked = self.inputs['result'].get_linked()
              if linked:
                  result = linked.get_source_reference()
              code += transpiler.result(result)

      return code
  \<close>
  After the loop the variable \<open>socket\<close> is still bound to the last socket of
  \<open>self.inputs\<close>, whatever its name; with no input at all it is unbound.
\<close>

fun io_assignments ::
  "(socket_id \<Rightarrow> error + string option) \<Rightarrow> nat \<Rightarrow> tree \<Rightarrow> transpiler option \<Rightarrow> socket_id list \<Rightarrow>
   string \<Rightarrow> error + string" where
  "io_assignments ref k t tr [] code = Inr code"
| "io_assignments ref k t tr (socket # rest) code =
     (if sock_name (socket_at t socket) = ''result'' then io_assignments ref k t tr rest code
      else
        bind_err (global_or_linked_reference ref k t socket) (\<lambda>initialization.
        bind_err (the_transpiler tr) (\<lambda>transpiler.
        bind_err (ref socket) (\<lambda>reference.
          io_assignments ref k t tr rest
            (code @ asignment transpiler (py_str reference) (py_str initialization))))))"

definition io_result ::
  "(socket_id \<Rightarrow> error + string option) \<Rightarrow> nat \<Rightarrow> tree \<Rightarrow> node_id \<Rightarrow> transpiler option \<Rightarrow>
   error + string" where
  "io_result ref k t n tr =
     (case inputs (node_at t n) of
        [] \<Rightarrow> Inl NameError
      | s # ss \<Rightarrow>
          (let socket = last (s # ss) in
           bind_err (get_source_global_reference t socket) (\<lambda>global.
           bind_err (find_socket t (inputs (node_at t n)) ''result'') (\<lambda>result_socket.
           bind_err (linked_socket k t result_socket) (\<lambda>linked.
           bind_err (case linked of None \<Rightarrow> Inr (Some global) | Some l \<Rightarrow> ref l) (\<lambda>r.
           bind_err (the_transpiler tr) (\<lambda>transpiler.
             Inr (result transpiler (py_str r)))))))))"

definition io_get_source_code ::
  "(socket_id \<Rightarrow> error + string option) \<Rightarrow> nat \<Rightarrow> tree \<Rightarrow> node_id \<Rightarrow> string \<Rightarrow> bool \<Rightarrow>
   transpiler option \<Rightarrow> error + string" where
  "io_get_source_code ref k t n io_type is_out tr =
     (if is_out then
        bind_err (get_io_function t io_type) (\<lambda>function.
        bind_err (io_assignments ref k t tr (inputs (node_at t n)) []) (\<lambda>code.
          if f_type function \<noteq> ''void'' then
            bind_err (io_result ref k t n tr) (\<lambda>r. Inr (code @ r))
          else Inr code))
      else Inr [])"

section \<open>MaltArrayIndexNode\<close>

text \<open>
  \<^verbatim>\<open>
  def malt_update(self):
      inputs = { 'array' : ('', 1), 'index' : ('int', 0) }
      outputs = { 'element' : ('', 0) }

      linked = self.inputs['array'].get_linked()
      if linked and linked.array_size > 0:
          inputs['array'] = linked.data_type, linked.array_size
          outputs['element'] = linked.data_type, 0

      self.setup_sockets(inputs, outputs)
  \<close>
  The model gives the two dictionaries that \<open>malt_update\<close> hands to \<open>setup_sockets\<close>.
\<close>

type_synonym schema = "(string \<times> string \<times> int) list"

definition array_index_schema :: "nat \<Rightarrow> tree \<Rightarrow> node_id \<Rightarrow> error + (schema \<times> schema)" where
  "array_index_schema k t n =
     bind_err (find_socket t (inputs (node_at t n)) ''array'') (\<lambda>array.
     bind_err (linked_socket k t array) (\<lambda>linked.
       case linked of
         None \<Rightarrow> Inr ([(''array'', [], 1), (''index'', ''int'', 0)], [(''element'', [], 0)])
       | Some l \<Rightarrow>
           bind_err (get_array_size t l) (\<lambda>sz.
             if sz > 0 then
               bind_err (get_data_type t l) (\<lambda>ty.
                 Inr ([(''array'', ty, sz), (''index'', ''int'', 0)], [(''element'', ty, 0)]))
             else Inr ([(''array'', [], 1), (''index'', ''int'', 0)], [(''element'', [], 0)]))))"

text \<open>
  \<^verbatim>\<open>
  def get_source_code(self, transpiler):
      array = self.inputs['array']
      index = self.inputs['index']
      element = self.outputs['element']
      element_reference = index.get_source_global_reference()
      if index.get_linked():
          element_reference = index.get_linked().get_source_reference()
      initialization = '{}[{}]'.format(array.get_linked().get_source_reference(), element_reference)
      return transpiler.declaration(element.data_type, element.array_size,
                                    element.get_source_reference(), initialization)
  \<close>
  \<open>array.get_linked()\<close> is \<open>None\<close> for an unlinked socket, and \<open>None\<close> has no
  \<open>get_source_reference\<close>.
\<close>

definition array_index_get_source_code ::
  "(socket_id \<Rightarrow> error + string option) \<Rightarrow> nat \<Rightarrow> tree \<Rightarrow> node_id \<Rightarrow> transpiler option \<Rightarrow>
   error + string" where
  "array_index_get_source_code ref k t n tr =
     bind_err (find_socket t (inputs (node_at t n)) ''array'') (\<lambda>array.
     bind_err (find_socket t (inputs (node_at t n)) ''index'') (\<lambda>index.
     bind_err (find_socket t (outputs (node_at t n)) ''element'') (\<lambda>element.
     bind_err (global_or_linked_reference ref k t index) (\<lambda>element_reference.
     bind_err (linked_socket k t array) (\<lambda>linked.
     bind_err (case linked of None \<Rightarrow> Inl AttributeError | Some l \<Rightarrow> ref l) (\<lambda>array_reference.
     bind_err (the_transpiler tr) (\<lambda>transpiler.
     bind_err (get_data_type t element) (\<lambda>ty.
     bind_err (get_array_size t element) (\<lambda>sz.
     bind_err (ref element) (\<lambda>reference.
       Inr (declaration_stmt transpiler ty sz (py_str reference)
              (Some (py_str array_reference @ ''['' @ py_str element_reference @ '']'')))))))))))))"

section \<open>MaltStructNode\<close>

text \<open>
  \<^verbatim>\<open>
  def get_source_code(self, transpiler):
      code = ''
      node_name = self.get_source_name()
      struct_linked = self.struct_input_is_linked()
      initialization = None
      if struct_linked:
          linked = self.inputs[self.struct_type].get_linked()
          initialization = linked.get_source_reference()
      code += transpiler.declaration(self.struct_type, 0, node_name, initialization)
      for input in self.inputs:
          if input.data_type != self.struct_type:
              linked = input.get_linked()
              if linked or struct_linked == False:
                  initialization = input.get_source_global_reference()
                  if linked:
                      initialization = linked.get_source_reference()
                  code += transpiler.asignment(input.get_source_reference(), initialization)
      return code
  \<close>
\<close>

definition struct_input_is_linked :: "nat \<Rightarrow> tree \<Rightarrow> node_id \<Rightarrow> string \<Rightarrow> error + bool" where
  "struct_input_is_linked k t n struct_type =
     bind_err (find_socket t (inputs (node_at t n)) struct_type) (\<lambda>socket.
     bind_err (linked_socket k t socket) (\<lambda>linked. Inr (linked \<noteq> None)))"

fun struct_assignments ::
  "(socket_id \<Rightarrow> error + string option) \<Rightarrow> nat \<Rightarrow> tree \<Rightarrow> transpiler option \<Rightarrow> string \<Rightarrow> bool \<Rightarrow>
   socket_id list \<Rightarrow> string \<Rightarrow> error + string" where
  "struct_assignments ref k t tr struct_type struct_linked [] code = Inr code"
| "struct_assignments ref k t tr struct_type struct_linked (input # rest) code =
     bind_err (get_data_type t input) (\<lambda>ty.
       if ty \<noteq> struct_type then
         bind_err (linked_socket k t input) (\<lambda>linked.
           if linked \<noteq> None \<or> \<not> struct_linked then
             bind_err (get_source_global_reference t input) (\<lambda>global.
             bind_err (case linked of None \<Rightarrow> Inr (Some global) | Some l \<Rightarrow> ref l) (\<lambda>initialization.
             bind_err (the_transpiler tr) (\<lambda>transpiler.
             bind_err (ref input) (\<lambda>reference.
               struct_assignments ref k t tr struct_type struct_linked rest
                 (code @ asignment transpiler (py_str reference) (py_str initialization))))))
           else struct_assignments ref k t tr struct_type struct_linked rest code)
       else struct_assignments ref k t tr struct_type struct_linked rest code)"

definition struct_get_source_code ::
  "(socket_id \<Rightarrow> error + string option) \<Rightarrow> nat \<Rightarrow> tree \<Rightarrow> node_id \<Rightarrow> string \<Rightarrow> transpiler option \<Rightarrow>
   error + string" where
  "struct_get_source_code ref k t n struct_type tr =
     bind_err (node_source_name t n) (\<lambda>node_name.
     bind_err (struct_input_is_linked k t n struct_type) (\<lambda>struct_linked.
     bind_err (if struct_linked then
                 bind_err (find_socket t (inputs (node_at t n)) struct_type) (\<lambda>socket.
                 bind_err (linked_socket k t socket) (\<lambda>linked.
                   case linked of None \<Rightarrow> Inl AttributeError | Some l \<Rightarrow> ref l))
               else Inr None) (\<lambda>initialization.
     bind_err (the_transpiler tr) (\<lambda>transpiler.
       struct_assignments ref k t tr struct_type struct_linked (inputs (node_at t n))
         (declaration_stmt transpiler struct_type 0 node_name initialization)))))"

section \<open>MaltInlineNode\<close>

text \<open>
  \<^verbatim>\<open>
  def get_source_code(self, transpiler):
      code = ''
      result_socket = self.outputs['result']
      code += transpiler.declaration(result_socket.data_type, result_socket.array_size,
                                     result_socket.get_source_reference())
      scoped_code = ''
      for input in self.inputs:
          if input.data_type != '':
              initialization = input.get_source_global_reference()
              if input.get_linked():
                  initialization = input.get_linked().get_source_reference()
              scoped_code += transpiler.declaration(input.data_type, input.array_size,
                                                    input.name, initialization)
      if self.code != '':
          scoped_code += transpiler.asignment(self.outputs['result'].get_source_reference(), self.code)
      return code + transpiler.scoped(scoped_code)
  \<close>
\<close>

fun inline_declarations ::
  "(socket_id \<Rightarrow> error + string option) \<Rightarrow> nat \<Rightarrow> tree \<Rightarrow> transpiler \<Rightarrow> socket_id list \<Rightarrow> string \<Rightarrow>
   error + string" where
  "inline_declarations ref k t transpiler [] scoped_code = Inr scoped_code"
| "inline_declarations ref k t transpiler (input # rest) scoped_code =
     bind_err (get_data_type t input) (\<lambda>ty.
       if ty \<noteq> [] then
         bind_err (global_or_linked_reference ref k t input) (\<lambda>initialization.
         bind_err (get_array_size t input) (\<lambda>sz.
           inline_declarations ref k t transpiler rest
             (scoped_code @ declaration_stmt transpiler ty sz (sock_name (socket_at t input))
                              initialization)))
       else inline_declarations ref k t transpiler rest scoped_code)"

definition inline_get_source_code ::
  "(socket_id \<Rightarrow> error + string option) \<Rightarrow> nat \<Rightarrow> tree \<Rightarrow> node_id \<Rightarrow> string \<Rightarrow> transpiler option \<Rightarrow>
   error + string" where
  "inline_get_source_code ref k t n code tr =
     bind_err (find_socket t (outputs (node_at t n)) ''result'') (\<lambda>result_socket.
     bind_err (the_transpiler tr) (\<lambda>transpiler.
     bind_err (get_data_type t result_socket) (\<lambda>ty.
     bind_err (get_array_size t result_socket) (\<lambda>sz.
     bind_err (ref result_socket) (\<lambda>reference.
     bind_err (inline_declarations ref k t transpiler (inputs (node_at t n)) []) (\<lambda>scoped_code.
     bind_err (if code \<noteq> [] then
                 bind_err (ref result_socket) (\<lambda>r.
                   Inr (scoped_code @ asignment transpiler (py_str r) code))
               else Inr scoped_code) (\<lambda>scoped_code'.
       Inr (declaration_stmt transpiler ty sz (py_str reference) None @
            scoped transpiler scoped_code'))))))))"

section \<open>Emission of a node\<close>

text \<open>\<open>node.get_source_code(transpiler)\<close>, by the class of the node.\<close>

definition get_source_code_step ::
  "(socket_id \<Rightarrow> error + string option) \<Rightarrow> nat \<Rightarrow> tree \<Rightarrow> node_id \<Rightarrow> transpiler option \<Rightarrow> error + string" where
  "get_source_code_step ref k t n tr =
     (case node_class (node_at t n) of
        MaltStructNode struct_type \<Rightarrow> struct_get_source_code ref k t n struct_type tr
      | MaltFunctionNode function_type \<Rightarrow> function_get_source_code ref k t n function_type tr
      | MaltIONode io_type is_out \<Rightarrow> io_get_source_code ref k t n io_type is_out tr
      | MaltInlineNode code \<Rightarrow> inline_get_source_code ref k t n code tr
      | MaltArrayIndexNode \<Rightarrow> array_index_get_source_code ref k t n tr
      | NodeReroute \<Rightarrow> Inl AttributeError)"

definition get_source_code :: "nat \<Rightarrow> tree \<Rightarrow> node_id \<Rightarrow> transpiler option \<Rightarrow> error + string" where
  "get_source_code k t n tr = get_source_code_step (get_source_reference k t) k t n tr"

text \<open>
  \<^verbatim>\<open>
  def sockets_to_global_parameters(self, sockets, transpiler):
      code = ''
      for socket in sockets:
          if socket.data_type != '' and socket.get_linked() is None:
              code += transpiler.global_declaration(socket.data_type, socket.array_size,
                                                    socket.get_source_global_reference())
      return code
  \<close>
\<close>

fun sockets_to_global_parameters ::
  "nat \<Rightarrow> tree \<Rightarrow> transpiler option \<Rightarrow> socket_id list \<Rightarrow> string \<Rightarrow> error + string" where
  "sockets_to_global_parameters k t tr [] code = Inr code"
| "sockets_to_global_parameters k t tr (socket # rest) code =
     bind_err (get_data_type t socket) (\<lambda>ty.
       if ty \<noteq> [] then
         bind_err (linked_socket k t socket) (\<lambda>linked.
           if linked = None then
             bind_err (the_transpiler tr) (\<lambda>transpiler.
             bind_err (get_array_size t socket) (\<lambda>sz.
             bind_err (get_source_global_reference t socket) (\<lambda>reference.
               sockets_to_global_parameters k t tr rest
                 (code @ global_declaration transpiler ty sz reference None))))
           else sockets_to_global_parameters k t tr rest code)
       else sockets_to_global_parameters k t tr rest code)"

fun struct_member_inputs :: "tree \<Rightarrow> string \<Rightarrow> socket_id list \<Rightarrow> error + socket_id list" where
  "struct_member_inputs t struct_type [] = Inr []"
| "struct_member_inputs t struct_type (s # rest) =
     bind_err (get_data_type t s) (\<lambda>ty.
     bind_err (struct_member_inputs t struct_type rest) (\<lambda>members.
       Inr (if ty \<noteq> struct_type then s # members else members)))"

definition get_source_global_parameters ::
  "nat \<Rightarrow> tree \<Rightarrow> node_id \<Rightarrow> transpiler option \<Rightarrow> error + string" where
  "get_source_global_parameters k t n tr =
     (case node_class (node_at t n) of
        MaltStructNode struct_type \<Rightarrow>
          bind_err (struct_input_is_linked k t n struct_type) (\<lambda>struct_linked.
            if \<not> struct_linked then
              bind_err (struct_member_inputs t struct_type (inputs (node_at t n))) (\<lambda>members.
                sockets_to_global_parameters k t tr members [])
            else Inr [])
      | NodeReroute \<Rightarrow> Inl AttributeError
      | _ \<Rightarrow> sockets_to_global_parameters k t tr (inputs (node_at t n)) [])"

section \<open>MaltTree.get_generated_source\<close>

text \<open>
  \<^verbatim>\<open>
  def add_node_inputs(node, list):
      for input in node.inputs:
          if input.is_linked:
              new_node = input.links[0].from_node
              if new_node not in list:
                  add_node_inputs(new_node, list)
                  list.append(new_node)
              if new_node not in linked_nodes:
                  linked_nodes.append(new_node)
  \<close>
  The state of the walk is the list of the caller and the \<open>linked_nodes\<close> of the
  enclosing function.  A linked input is one with a first link.  The calls nest along
  the graph, so their depth is bounded by \<open>k\<close>; \<open>None\<close> is a walk that went deeper.
\<close>

type_synonym walk = "node_id list \<times> node_id list"

fun add_inputs ::
  "(node_id \<Rightarrow> walk \<Rightarrow> walk option) \<Rightarrow> tree \<Rightarrow> socket_id list \<Rightarrow> walk \<Rightarrow> walk option" where
  "add_inputs visit t [] w = Some w"
| "add_inputs visit t (input # rest) (list, linked_nodes) =
     (case socket_links t input of
        [] \<Rightarrow> add_inputs visit t rest (list, linked_nodes)
      | link # _ \<Rightarrow>
          (let new_node = from_node t link in
           case (if new_node \<notin> set list then
                   (case visit new_node (list, linked_nodes) of
                      None \<Rightarrow> None
                    | Some (list', linked_nodes') \<Rightarrow> Some (list' @ [new_node], linked_nodes'))
                 else Some (list, linked_nodes)) of
             None \<Rightarrow> None
           | Some (list', linked_nodes') \<Rightarrow>
               add_inputs visit t rest
                 (list',
                  if new_node \<notin> set linked_nodes' then linked_nodes' @ [new_node]
                  else linked_nodes')))"

primrec add_node_inputs :: "nat \<Rightarrow> tree \<Rightarrow> node_id \<Rightarrow> walk \<Rightarrow> walk option" where
  "add_node_inputs 0 t node w = None"
| "add_node_inputs (Suc k) t node w =
     add_inputs (add_node_inputs k t) t (inputs (node_at t node)) w"

text \<open>
  \<^verbatim>\<open>
  def get_source(output):
      nodes = []
      add_node_inputs(output, nodes)
      code = ''
      for node in nodes:
          if isinstance(node, MaltNode):
              code += node.get_source_code(transpiler) + '\n'
      code += output.get_source_code(transpiler)
      return code
  \<close>
\<close>

fun nodes_source_code ::
  "nat \<Rightarrow> tree \<Rightarrow> transpiler option \<Rightarrow> node_id list \<Rightarrow> string \<Rightarrow> error + string" where
  "nodes_source_code k t tr [] code = Inr code"
| "nodes_source_code k t tr (node # rest) code =
     (if is_malt_node t node then
        bind_err (get_source_code k t node tr) (\<lambda>c.
          nodes_source_code k t tr rest (code @ c @ [nl]))
      else nodes_source_code k t tr rest code)"

definition get_source ::
  "nat \<Rightarrow> tree \<Rightarrow> transpiler option \<Rightarrow> node_id \<Rightarrow> node_id list \<Rightarrow>
   error + (string \<times> node_id list)" where
  "get_source k t tr output linked_nodes =
     (case add_node_inputs k t output ([], linked_nodes) of
        None \<Rightarrow> Inl RecursionError
      | Some (nodes_list, linked_nodes') \<Rightarrow>
          bind_err (nodes_source_code k t tr nodes_list []) (\<lambda>code.
          bind_err (get_source_code k t output tr) (\<lambda>c.
            Inr (code @ c, linked_nodes'))))"

definition is_output_node :: "tree \<Rightarrow> node_id \<Rightarrow> bool" where
  "is_output_node t n =
     (case node_class (node_at t n) of MaltIONode io_type is_out \<Rightarrow> is_out | _ \<Rightarrow> False)"

definition io_type_of :: "tree \<Rightarrow> node_id \<Rightarrow> string" where
  "io_type_of t n =
     (case node_class (node_at t n) of MaltIONode io_type is_out \<Rightarrow> io_type | _ \<Rightarrow> [])"

definition output_nodes :: "tree \<Rightarrow> node_id list" where
  "output_nodes t =
     (case pipeline t of None \<Rightarrow> [] | Some graph \<Rightarrow> filter (is_output_node t) (nodes t))"

fun get_sources ::
  "nat \<Rightarrow> tree \<Rightarrow> transpiler option \<Rightarrow> node_id list \<Rightarrow> node_id list \<Rightarrow> (string \<rightharpoonup> string) \<Rightarrow>
   error + ((string \<rightharpoonup> string) \<times> node_id list)" where
  "get_sources k t tr [] linked_nodes shader = Inr (shader, linked_nodes)"
| "get_sources k t tr (output # rest) linked_nodes shader =
     bind_err (get_source k t tr output linked_nodes) (\<lambda>(code, linked_nodes').
       get_sources k t tr rest linked_nodes' (shader(io_type_of t output \<mapsto> code)))"

fun global_parameters ::
  "nat \<Rightarrow> tree \<Rightarrow> transpiler option \<Rightarrow> node_id list \<Rightarrow> string \<Rightarrow> error + string" where
  "global_parameters k t tr [] code = Inr code"
| "global_parameters k t tr (node # rest) code =
     (if is_malt_node t node then
        bind_err (get_source_global_parameters k t node tr) (\<lambda>c.
          global_parameters k t tr rest (code @ c))
      else global_parameters k t tr rest code)"

text \<open>
  The value of the model is the dictionary \<open>shader\<close> that the source hands to
  \<open>pipeline_graph.generate_source\<close>, a method of the pipeline outside this code.
\<close>

definition get_generated_source :: "nat \<Rightarrow> tree \<Rightarrow> error + (string \<rightharpoonup> string)" where
  "get_generated_source k t =
     bind_err (get_transpiler t) (\<lambda>tr.
     bind_err (get_sources k t tr (output_nodes t) (output_nodes t) Map.empty) (\<lambda>(shader, linked_nodes).
     bind_err (global_parameters k t tr linked_nodes
                 (case library_path t of
                    None \<Rightarrow> []
                  | Some p \<Rightarrow> ''#include '' @ [dq] @ p @ [dq] @ [nl])) (\<lambda>global.
       Inr (shader(''GLOBAL'' \<mapsto> global)))))"

text \<open>
  The node lists of the walks alone: for every exit node its emission order, and the
  final \<open>linked_nodes\<close>.
\<close>

fun walk_outputs ::
  "nat \<Rightarrow> tree \<Rightarrow> node_id list \<Rightarrow> node_id list \<Rightarrow>
   ((node_id \<times> node_id list) list \<times> node_id list) option" where
  "walk_outputs k t [] linked_nodes = Some ([], linked_nodes)"
| "walk_outputs k t (output # rest) linked_nodes =
     (case add_node_inputs k t output ([], linked_nodes) of
        None \<Rightarrow> None
      | Some (nodes_list, linked_nodes') \<Rightarrow>
          (case walk_outputs k t rest linked_nodes' of
             None \<Rightarrow> None
           | Some (per_output, linked_nodes'') \<Rightarrow>
               Some ((output, nodes_list) # per_output, linked_nodes'')))"

definition input_nodes :: "tree \<Rightarrow> socket_id list \<Rightarrow> node_id list" where
  "input_nodes t sockets =
     concat (map (\<lambda>input. case socket_links t input of [] \<Rightarrow> [] | link # _ \<Rightarrow> [from_node t link])
                 sockets)"

definition upstream_nodes :: "tree \<Rightarrow> node_id \<Rightarrow> node_id list" where
  "upstream_nodes t n = input_nodes t (inputs (node_at t n))"

definition upstream_rel :: "tree \<Rightarrow> (node_id \<times> node_id) set" where
  "upstream_rel t = {(m, n). m \<in> set (upstream_nodes t n)}"

text \<open>
  The invariant of the walk, and what a visit adds: the list of the walk has no
  duplicates and holds, with every node, the nodes upstream of it.
\<close>

definition closed_upstream :: "tree \<Rightarrow> node_id set \<Rightarrow> bool" where
  "closed_upstream t S = (\<forall>x \<in> S. set (upstream_nodes t x) \<subseteq> S)"

definition walk_inv :: "tree \<Rightarrow> walk \<Rightarrow> bool" where
  "walk_inv t w = (distinct (fst w) \<and> distinct (snd w) \<and> closed_upstream t (set (fst w)))"

definition walk_post :: "tree \<Rightarrow> (node_id \<Rightarrow> nat) \<Rightarrow> nat \<Rightarrow> walk \<Rightarrow> walk \<Rightarrow> bool" where
  "walk_post t rank b w w' =
     (walk_inv t w' \<and> set (fst w) \<subseteq> set (fst w') \<and> set (snd w) \<subseteq> set (snd w') \<and>
      set (fst w') - set (fst w) \<subseteq> set (snd w') \<and>
      (\<forall>x \<in> set (fst w') - set (fst w). rank x < b))"

section \<open>The compilation in the words of the specification\<close>

text \<open>
  The results of a list of emissions in their order, up to the first one that raises.
\<close>

fun collect :: "(error + 'a) list \<Rightarrow> error + 'a list" where
  "collect [] = Inr []"
| "collect (r # rs) = bind_err r (\<lambda>x. bind_err (collect rs) (\<lambda>xs. Inr (x # xs)))"

text \<open>
  The source of one root: the local emission of each visited node, in the emission
  order, each followed by a newline, and then the emission of the root itself.
\<close>

definition root_source_spec ::
  "nat \<Rightarrow> tree \<Rightarrow> transpiler option \<Rightarrow> node_id \<Rightarrow> node_id list \<Rightarrow> error + string" where
  "root_source_spec k t tr root order =
     bind_err (collect (map (\<lambda>n. get_source_code k t n tr) (filter (is_malt_node t) order)))
       (\<lambda>codes.
     bind_err (get_source_code k t root tr) (\<lambda>c.
       Inr (concat (map (\<lambda>code. code @ [nl]) codes) @ c)))"

fun root_sources_spec ::
  "nat \<Rightarrow> tree \<Rightarrow> transpiler option \<Rightarrow> (node_id \<times> node_id list) list \<Rightarrow>
   (string \<rightharpoonup> string) \<Rightarrow> error + (string \<rightharpoonup> string)" where
  "root_sources_spec k t tr [] shader = Inr shader"
| "root_sources_spec k t tr ((root, order) # rest) shader =
     bind_err (root_source_spec k t tr root order) (\<lambda>src.
       root_sources_spec k t tr rest (shader(io_type_of t root \<mapsto> src)))"

text \<open>
  The global block: the include directive of the library, if there is one, and then the
  global-parameter declarations of each node touched by any root, one node after the
  other.
\<close>

definition global_block_spec ::
  "nat \<Rightarrow> tree \<Rightarrow> transpiler option \<Rightarrow> node_id list \<Rightarrow> error + string" where
  "global_block_spec k t tr touched =
     bind_err (collect (map (\<lambda>n. get_source_global_parameters k t n tr)
                            (filter (is_malt_node t) touched)))
       (\<lambda>declarations.
          Inr ((case library_path t of
                  None \<Rightarrow> []
                | Some p \<Rightarrow> ''#include '' @ [dq] @ p @ [dq] @ [nl]) @ concat declarations))"

definition generated_source_spec ::
  "nat \<Rightarrow> tree \<Rightarrow> (node_id \<times> node_id list) list \<Rightarrow> node_id list \<Rightarrow>
   error + (string \<rightharpoonup> string)" where
  "generated_source_spec k t per_root touched =
     bind_err (get_transpiler t) (\<lambda>tr.
     bind_err (root_sources_spec k t tr per_root Map.empty) (\<lambda>shader.
     bind_err (global_block_spec k t tr touched) (\<lambda>global.
       Inr (shader(''GLOBAL'' \<mapsto> global)))))"

section \<open>The updates-disabled flag\<close>

text \<open>
  \<^verbatim>\<open>
  def _disable_updates_wrapper(self, function):
      tree = self.id_data
      tree.disable_updates = True
      self.disable_updates = True
      try:
          function()
      except:
          import traceback
          traceback.print_exc()
      tree.disable_updates = False
      self.disable_updates = False
  \<close>
  A wrapped operation is a function on the state of the tree that may raise: it gives
  the exception, if any, and the state it leaves behind.
\<close>

type_synonym operation = "tree \<Rightarrow> error option \<times> tree"

definition set_node_disable_updates :: "node_id \<Rightarrow> bool \<Rightarrow> tree \<Rightarrow> tree" where
  "set_node_disable_updates n b t =
     t\<lparr>node_at := (node_at t)(n := (node_at t n)\<lparr>node_disable_updates := b\<rparr>)\<rparr>"

definition disable_updates_wrapper :: "node_id \<Rightarrow> operation \<Rightarrow> tree \<Rightarrow> tree" where
  "disable_updates_wrapper n function t =
     (let t1 = t\<lparr>disable_updates := True\<rparr>;
          t2 = set_node_disable_updates n True t1;
          (raised, t3) = function t2;
          t4 = t3\<lparr>disable_updates := False\<rparr>
      in set_node_disable_updates n False t4)"

text \<open>
  \<^verbatim>\<open>
  def setup(self, context=None):
      self._disable_updates_wrapper(self.malt_setup)

  def update(self):
      if self.disable_updates:
          return
      self._disable_updates_wrapper(self.malt_update)
  \<close>
\<close>

definition node_setup :: "(node_id \<Rightarrow> operation) \<Rightarrow> node_id \<Rightarrow> tree \<Rightarrow> tree" where
  "node_setup malt_setup n t = disable_updates_wrapper n (malt_setup n) t"

definition node_init :: "(node_id \<Rightarrow> operation) \<Rightarrow> node_id \<Rightarrow> tree \<Rightarrow> tree" where
  "node_init malt_init n t = disable_updates_wrapper n (malt_init n) t"

definition node_update :: "(node_id \<Rightarrow> operation) \<Rightarrow> node_id \<Rightarrow> tree \<Rightarrow> tree" where
  "node_update malt_update n t =
     (if node_disable_updates (node_at t n) then t
      else disable_updates_wrapper n (malt_update n) t)"

text \<open>
  \<^verbatim>\<open>
  def reload_nodes(self):
      self.disable_updates = True
      try:
          for node in self.nodes:
              if isinstance(node, MaltNode):
                  node.setup()
          for node in self.nodes:
              if isinstance(node, MaltNode):
                  node.update()
      except:
          import traceback
          traceback.print_exc()
      self.disable_updates = False
  \<close>
  The loops run over the nodes that the tree has when they start.
\<close>

fun for_malt_nodes :: "(node_id \<Rightarrow> tree \<Rightarrow> tree) \<Rightarrow> node_id list \<Rightarrow> tree \<Rightarrow> tree" where
  "for_malt_nodes f [] t = t"
| "for_malt_nodes f (n # ns) t =
     for_malt_nodes f ns (if is_malt_node t n then f n t else t)"

definition reload_nodes ::
  "(node_id \<Rightarrow> operation) \<Rightarrow> (node_id \<Rightarrow> operation) \<Rightarrow> tree \<Rightarrow> tree" where
  "reload_nodes malt_setup malt_update t =
     (let t1 = t\<lparr>disable_updates := True\<rparr>;
          t2 = for_malt_nodes (node_setup malt_setup) (nodes t1) t1;
          t3 = for_malt_nodes (node_update malt_update) (nodes t2) t2
      in t3\<lparr>disable_updates := False\<rparr>)"

text \<open>
  \<^verbatim>\<open>
  def update(self):
      if self.disable_updates:
          return
      if self.get_pipeline_graph() is None:
          return
      self.disable_updates = True
      try:
          for link in self.links: ...
          source = self.get_generated_source()
          ... write the file, track_shader_changes() ...
      except:
          import traceback
          traceback.print_exc()
      self.disable_updates = False
      self.update_tag()
  \<close>
  Writing the file and \<open>track_shader_changes\<close> are the operation \<open>write_source\<close>, which
  gets the generated source.  \<open>update_tag\<close> marks the tree for the host and leaves the
  flag alone.
\<close>

definition update_body ::
  "nat \<Rightarrow> ((string \<rightharpoonup> string) \<Rightarrow> operation) \<Rightarrow> operation" where
  "update_body k write_source t =
     (let t1 = normalize_links t in
      case get_generated_source k t1 of
        Inl e \<Rightarrow> (Some e, t1)
      | Inr source \<Rightarrow> write_source source t1)"

definition update :: "nat \<Rightarrow> ((string \<rightharpoonup> string) \<Rightarrow> operation) \<Rightarrow> tree \<Rightarrow> tree" where
  "update k write_source t =
     (if disable_updates t then t
      else if pipeline t = None then t
      else
        (let t1 = t\<lparr>disable_updates := True\<rparr>;
             (raised, t2) = update_body k write_source t1
         in t2\<lparr>disable_updates := False\<rparr>))"

section \<open>Example graphs\<close>

definition malt_socket :: "string \<Rightarrow> node_id \<Rightarrow> bool \<Rightarrow> string \<Rightarrow> int \<Rightarrow> socket" where
  "malt_socket n nd out ty sz =
     \<lparr>sock_name = n, sock_node = nd, is_output = out, is_malt_socket = True,
      data_type = ty, array_size = sz\<rparr>"

definition host_socket :: "string \<Rightarrow> node_id \<Rightarrow> bool \<Rightarrow> socket" where
  "host_socket n nd out =
     \<lparr>sock_name = n, sock_node = nd, is_output = out, is_malt_socket = False,
      data_type = [], array_size = 0\<rparr>"

definition mk_node :: "string \<Rightarrow> node_class \<Rightarrow> socket_id list \<Rightarrow> socket_id list \<Rightarrow> node" where
  "mk_node n c ins outs =
     \<lparr>node_name = n, node_class = c, inputs = ins, outputs = outs, node_disable_updates = False\<rparr>"

definition mk_link :: "socket_id \<Rightarrow> socket_id \<Rightarrow> link" where
  "mk_link a b = \<lparr>from_socket = a, to_socket = b\<rparr>"

definition glsl_pipeline :: pipeline_graph where
  "glsl_pipeline =
     \<lparr>language = ''GLSL'', structs = Map.empty, graph_functions = Map.empty, graph_IO = Map.empty\<rparr>"

definition mk_tree ::
  "node_id list \<Rightarrow> (node_id \<Rightarrow> node) \<Rightarrow> (socket_id \<Rightarrow> socket) \<Rightarrow> link list \<Rightarrow> pipeline_graph \<Rightarrow> tree" where
  "mk_tree ns na sa ls pg =
     \<lparr>nodes = ns, node_at = na, socket_at = sa, links = ls, disable_updates = False,
      pipeline = Some pg, library_path = None,
      library_structs = Map.empty, library_functions = Map.empty\<rparr>"

definition mk_parameter :: "string \<Rightarrow> string \<Rightarrow> int \<Rightarrow> string \<Rightarrow> parameter" where
  "mk_parameter n ty sz io = \<lparr>p_name = n, p_type = ty, p_size = sz, p_io = io\<rparr>"

definition blend_function :: function_descr where
  "blend_function =
     \<lparr>f_name = ''blend'', f_type = ''vec4'',
      f_parameters = [mk_parameter ''uv'' ''vec2'' 0 ''in'',
                      mk_parameter ''weights'' ''float'' 4 ''inout'',
                      mk_parameter ''mask'' ''float'' 0 ''out'']\<rparr>"

definition mk_function :: "string \<Rightarrow> string \<Rightarrow> parameter list \<Rightarrow> function_descr" where
  "mk_function n ty ps = \<lparr>f_name = n, f_type = ty, f_parameters = ps\<rparr>"

text \<open>
  An entry node that offers the sampler \<open>tex\<close>, wired to the input \<open>tex\<close> of a function
  node for \<open>vec4 texture(sampler2D tex, vec2 uv)\<close>.
\<close>

definition sampler_tree :: tree where
  "sampler_tree =
     mk_tree [0, 1]
       (\<lambda>n. if n = 0 then mk_node ''PIXEL Input'' (MaltIONode ''PIXEL'' False) [] [5]
            else mk_node ''texture'' (MaltFunctionNode ''texture'') [1, 2] [3])
       (\<lambda>s. if s = 1 then malt_socket ''tex'' 1 False ''sampler2D'' 0
            else if s = 2 then malt_socket ''uv'' 1 False ''vec2'' 0
            else if s = 3 then malt_socket ''result'' 1 True ''vec4'' 0
            else malt_socket ''tex'' 0 True ''sampler2D'' 0)
       [mk_link 5 1]
       (glsl_pipeline\<lparr>
          graph_functions :=
            [''texture'' \<mapsto> mk_function ''texture'' ''vec4''
               [mk_parameter ''tex'' ''sampler2D'' 0 ''in'', mk_parameter ''uv'' ''vec2'' 0 ''in'']],
          graph_IO :=
            [''PIXEL'' \<mapsto> mk_function ''PIXEL'' ''void''
               [mk_parameter ''tex'' ''sampler2D'' 0 ''in'']]\<rparr>)"

text \<open>
  The exit node of \<open>vec4 PIXEL(out float depth)\<close>, with both inputs unlinked.
\<close>

definition exit_tree :: tree where
  "exit_tree =
     mk_tree [0]
       (\<lambda>n. mk_node ''PIXEL Output'' (MaltIONode ''PIXEL'' True) [0, 1] [])
       (\<lambda>s. if s = 0 then malt_socket ''result'' 0 False ''vec4'' 0
            else malt_socket ''depth'' 0 False ''float'' 0)
       []
       (glsl_pipeline\<lparr>
          graph_IO :=
            [''PIXEL'' \<mapsto> mk_function ''PIXEL'' ''vec4''
               [mk_parameter ''depth'' ''float'' 0 ''out'']]\<rparr>)"

text \<open>An array index node with nothing wired to it.\<close>

definition array_index_tree :: tree where
  "array_index_tree =
     mk_tree [0]
       (\<lambda>n. mk_node ''Array Index'' MaltArrayIndexNode [0, 1] [2])
       (\<lambda>s. if s = 0 then malt_socket ''array'' 0 False [] 1
            else if s = 1 then malt_socket ''index'' 0 False ''int'' 0
            else malt_socket ''element'' 0 True [] 0)
       []
       glsl_pipeline"

text \<open>Two exit nodes that take their value from one function node.\<close>

definition shared_tree :: tree where
  "shared_tree =
     mk_tree [0, 1, 2]
       (\<lambda>n. if n = 0 then mk_node ''A Output'' (MaltIONode ''A'' True) [0] []
            else if n = 1 then mk_node ''B Output'' (MaltIONode ''B'' True) [1] []
            else mk_node ''noise'' (MaltFunctionNode ''noise'') [2] [3])
       (\<lambda>s. if s = 0 then malt_socket ''x'' 0 False ''float'' 0
            else if s = 1 then malt_socket ''y'' 1 False ''float'' 0
            else if s = 2 then malt_socket ''v'' 2 False ''float'' 0
            else malt_socket ''result'' 2 True ''float'' 0)
       [mk_link 3 0, mk_link 3 1]
       (glsl_pipeline\<lparr>
          graph_functions :=
            [''noise'' \<mapsto> mk_function ''noise'' ''float'' [mk_parameter ''v'' ''float'' 0 ''in'']],
          graph_IO :=
            [''A'' \<mapsto> mk_function ''A'' ''void'' [mk_parameter ''x'' ''float'' 0 ''out''],
             ''B'' \<mapsto> mk_function ''B'' ''void'' [mk_parameter ''y'' ''float'' 0 ''out'']]\<rparr>)"

text \<open>
  Two exit nodes that take their value from a function node which is wired in a ring
  with a second function node.
\<close>

definition shared_cycle_tree :: tree where
  "shared_cycle_tree =
     mk_tree [0, 1, 2, 3]
       (\<lambda>n. if n = 0 then mk_node ''A Output'' (MaltIONode ''A'' True) [0] []
            else if n = 1 then mk_node ''B Output'' (MaltIONode ''B'' True) [1] []
            else if n = 2 then mk_node ''noise'' (MaltFunctionNode ''noise'') [2] [3]
            else mk_node ''noise.001'' (MaltFunctionNode ''noise'') [4] [5])
       (\<lambda>s. if s = 0 then malt_socket ''x'' 0 False ''float'' 0
            else if s = 1 then malt_socket ''y'' 1 False ''float'' 0
            else if s = 2 then malt_socket ''v'' 2 False ''float'' 0
            else if s = 3 then malt_socket ''result'' 2 True ''float'' 0
            else if s = 4 then malt_socket ''v'' 3 False ''float'' 0
            else malt_socket ''result'' 3 True ''float'' 0)
       [mk_link 3 0, mk_link 3 1, mk_link 5 2, mk_link 3 4]
       (glsl_pipeline\<lparr>
          graph_functions :=
            [''noise'' \<mapsto> mk_function ''noise'' ''float'' [mk_parameter ''v'' ''float'' 0 ''in'']],
          graph_IO :=
            [''A'' \<mapsto> mk_function ''A'' ''void'' [mk_parameter ''x'' ''float'' 0 ''out''],
             ''B'' \<mapsto> mk_function ''B'' ''void'' [mk_parameter ''y'' ''float'' 0 ''out'']]\<rparr>)"

text \<open>An inline node whose input \<open>a\<close> hangs on two reroute nodes wired in a ring.\<close>

definition reroute_cycle_tree :: tree where
  "reroute_cycle_tree =
     mk_tree [0, 1, 2]
       (\<lambda>n. if n = 0 then mk_node ''Inline Code'' (MaltInlineNode ''a'') [0] []
            else if n = 1 then mk_node ''Reroute'' NodeReroute [1] [2]
            else mk_node ''Reroute.001'' NodeReroute [3] [4])
       (\<lambda>s. if s = 0 then malt_socket ''a'' 0 False ''float'' 0
            else if s = 1 then host_socket ''Input'' 1 False
            else if s = 2 then host_socket ''Output'' 1 True
            else if s = 3 then host_socket ''Input'' 2 False
            else host_socket ''Output'' 2 True)
       [mk_link 2 0, mk_link 4 1, mk_link 2 3]
       glsl_pipeline"

text \<open>A float output wired through one reroute node to an int input.\<close>

definition reroute_chain_tree :: tree where
  "reroute_chain_tree =
     mk_tree [0, 1, 2]
       (\<lambda>n. if n = 0 then mk_node ''Inline Code'' (MaltInlineNode ''a'') [0] []
            else if n = 1 then mk_node ''Reroute'' NodeReroute [1] [2]
            else mk_node ''Inline Code.001'' (MaltInlineNode ''1.0'') [] [5])
       (\<lambda>s. if s = 0 then malt_socket ''a'' 0 False ''int'' 0
            else if s = 1 then host_socket ''Input'' 1 False
            else if s = 2 then host_socket ''Output'' 1 True
            else malt_socket ''result'' 2 True ''float'' 0)
       [mk_link 5 1, mk_link 2 0]
       glsl_pipeline"

text \<open>A float output wired to an int input, beside a float output wired to a float input.\<close>

definition mismatch_tree :: tree where
  "mismatch_tree =
     mk_tree [0, 1]
       (\<lambda>n. if n = 0 then mk_node ''Inline Code'' (MaltInlineNode ''a + b'') [0, 2] []
            else mk_node ''Inline Code.001'' (MaltInlineNode ''1.0'') [] [1, 3])
       (\<lambda>s. if s = 0 then malt_socket ''a'' 0 False ''int'' 0
            else if s = 1 then malt_socket ''result'' 1 True ''float'' 0
            else if s = 2 then malt_socket ''b'' 0 False ''float'' 0
            else malt_socket ''other'' 1 True ''float'' 0)
       [mk_link 1 0, mk_link 3 2]
       glsl_pipeline"



section \<open>Properties of the source name\<close>

lemma replace_pair_subset: "set (replace_pair u xs) \<subseteq> set xs"
  by (induction u xs rule: replace_pair.induct) auto

lemma replace_pair_head: "\<exists>ys. replace_pair u (u # xs) = u # ys"
  by (cases xs) auto

text \<open>
  What the method returns, for any alphabet and any table of alphanumeric characters:
  the underscore first, and then underscores and alphanumeric characters of the name.
\<close>

lemma get_source_name_on_shape:
  "get_source_name_on alnum dot u name \<noteq> [] \<and>
   hd (get_source_name_on alnum dot u name) = u \<and>
   (\<forall>c \<in> set (get_source_name_on alnum dot u name). c = u \<or> (alnum c \<and> c \<in> set name))"
proof -
  let ?kept = "filter (\<lambda>char. alnum char \<or> char = u) (replace_char dot u name)"
  let ?r = "get_source_name_on alnum dot u name"
  from replace_pair_head [of u ?kept] obtain ys where "replace_pair u (u # ?kept) = u # ys" ..
  then have shape: "?r = u # ys"
    by (simp only: get_source_name_on_def)
  have "set ?r \<subseteq> set (u # ?kept)"
    unfolding get_source_name_on_def by (rule replace_pair_subset)
  then have chars: "\<forall>c \<in> set ?r. c = u \<or> (alnum c \<and> c \<in> set name)"
    by (auto simp: replace_char_def split: if_splits)
  have "?r \<noteq> []" "hd ?r = u"
    by (simp_all only: shape list.sel list.distinct not_False_eq_True)
  with chars show ?thesis by blast
qed

lemma get_source_name_on_all:
  assumes "ok u" and "\<forall>c \<in> set name. alnum c \<longrightarrow> ok c"
  shows "list_all ok (get_source_name_on alnum dot u name)"
  unfolding list_all_iff
proof
  fix c
  assume "c \<in> set (get_source_name_on alnum dot u name)"
  with get_source_name_on_shape [of alnum dot u name]
  have "c = u \<or> (alnum c \<and> c \<in> set name)" by blast
  with assms show "ok c" by auto
qed

lemma identifier_char_underscore: "identifier_char (CHR ''_'')" "\<not> is_digit (CHR ''_'')"
  by (simp_all add: identifier_char_def is_digit_def)

text \<open>On the strings of the model: a name whose alphanumeric characters are ASCII.\<close>

lemma get_source_name_ascii:
  assumes "\<forall>c \<in> set name. isalnum c \<longrightarrow> identifier_char c"
  shows "is_identifier (get_source_name name)"
proof -
  from get_source_name_on_shape [of isalnum "CHR ''.''" "CHR ''_''" name]
  have "get_source_name name \<noteq> []" "hd (get_source_name name) = CHR ''_''"
    by (simp_all add: get_source_name_def)
  moreover from get_source_name_on_all [of identifier_char "CHR ''_''" name isalnum "CHR ''.''"] assms
  have "list_all identifier_char (get_source_name name)"
    by (simp add: get_source_name_def identifier_char_underscore)
  ultimately show ?thesis
    by (simp add: is_identifier_def identifier_char_underscore)
qed

text \<open>
  C10, as amended.  For every display name \<open>get_source_name\<close> returns a non-empty text
  that starts with an underscore and whose every character is an underscore or a
  character of the name that \<open>str.isalnum\<close> accepts; this holds for any alphabet and any
  table of alphanumeric characters, so for all of Unicode.  Whatever property the
  underscore and the alphanumeric characters of the name have, every character of the
  result has.  The result is an identifier of the target language when every character
  of the name that \<open>str.isalnum\<close> accepts is an ASCII letter or digit.
\<close>

theorem get_source_name_identifier:
  "get_source_name_on alnum dot u name \<noteq> [] \<and>
   hd (get_source_name_on alnum dot u name) = u \<and>
   (\<forall>c \<in> set (get_source_name_on alnum dot u name). c = u \<or> (alnum c \<and> c \<in> set name)) \<and>
   (ok u \<and> (\<forall>c \<in> set name. alnum c \<longrightarrow> ok c) \<longrightarrow>
      list_all ok (get_source_name_on alnum dot u name)) \<and>
   ((\<forall>c \<in> set s. isalnum c \<longrightarrow> identifier_char c) \<longrightarrow> is_identifier (get_source_name s))"
proof (intro conjI impI)
  show "get_source_name_on alnum dot u name \<noteq> []"
    using get_source_name_on_shape [of alnum dot u name] by (rule conjunct1)
  show "hd (get_source_name_on alnum dot u name) = u"
    using get_source_name_on_shape [of alnum dot u name] by blast
  show "\<forall>c \<in> set (get_source_name_on alnum dot u name). c = u \<or> (alnum c \<and> c \<in> set name)"
    using get_source_name_on_shape [of alnum dot u name] by blast
  show "list_all ok (get_source_name_on alnum dot u name)"
    if "ok u \<and> (\<forall>c \<in> set name. alnum c \<longrightarrow> ok c)"
    using that by (intro get_source_name_on_all) blast+
  show "is_identifier (get_source_name s)" if "\<forall>c \<in> set s. isalnum c \<longrightarrow> identifier_char c"
    using that by (rule get_source_name_ascii)
qed

theorem get_source_name_identifier_witness:
  "get_source_name ''Inline Code.001'' = ''_InlineCode_001'' \<and>
   identifier_char (CHR ''_'') \<and>
   list_all (\<lambda>c. \<not> isalnum c \<or> identifier_char c) ''Inline Code.001'' \<and>
   list_all identifier_char (get_source_name ''Inline Code.001'') \<and>
   is_identifier (get_source_name ''Inline Code.001'')"
proof -
  have e: "get_source_name ''Inline Code.001'' = ''_InlineCode_001''"
    by code_simp
  have a: "list_all (\<lambda>c. \<not> isalnum c \<or> identifier_char c) ''Inline Code.001''"
    by code_simp
  then have h: "\<forall>c \<in> set ''Inline Code.001''. isalnum c \<longrightarrow> identifier_char c"
    unfolding list_all_iff by blast
  note t = get_source_name_identifier
         [of isalnum "CHR ''.''" "CHR ''_''" "''Inline Code.001''" identifier_char
             "''Inline Code.001''"]
  from t h identifier_char_underscore(1)
  have l: "list_all identifier_char (get_source_name ''Inline Code.001'')"
    unfolding get_source_name_def by blast
  from t h have i: "is_identifier (get_source_name ''Inline Code.001'')"
    by blast
  from e identifier_char_underscore(1) a l i show ?thesis
    by (intro conjI)
qed

text \<open>
  The claim as stated fails: \<open>str.isalnum\<close> accepts the superscript two (code point
  178), so the name \<open>x\<close> followed by it keeps it, and the result is not an identifier
  of the target language.
\<close>

theorem get_source_name_not_identifier:
  "isalnum (CHR 0xB2) \<and>
   get_source_name [CHR ''x'', CHR 0xB2] = [CHR ''_'', CHR ''x'', CHR 0xB2] \<and>
   \<not> identifier_char (CHR 0xB2) \<and>
   \<not> is_identifier (get_source_name [CHR ''x'', CHR 0xB2])"
proof (intro conjI)
  show "isalnum (CHR 0xB2)" by code_simp
  show "get_source_name [CHR ''x'', CHR 0xB2] = [CHR ''_'', CHR ''x'', CHR 0xB2]" by code_simp
  show "\<not> identifier_char (CHR 0xB2)" by code_simp
  show "\<not> is_identifier (get_source_name [CHR ''x'', CHR 0xB2])" by code_simp
qed


section \<open>Mangled identifiers\<close>

lemma append_eq_same_length:
  "length (a :: 'a list) = length b \<Longrightarrow> (a @ x = b @ y) = (a = b \<and> x = y)"
  by auto

lemma startswith_append: "startswith (p @ s) p"
  by (induction p) auto

lemma contains_str_append: "contains_str (a @ p @ b) p"
proof (induction a)
  case Nil
  show ?case by (cases "p @ b") (auto simp: startswith_append dest: sym)
next
  case (Cons c a)
  then show ?case by simp
qed

text \<open>
  A plain socket name behind the separator leaves no second place for the separator.
\<close>

lemma separator_not_shifted:
  assumes "plain_socket_name s" and "''_0_'' @ s = d @ ''_0_'' @ s'"
  shows "d = []"
proof (rule ccontr)
  assume "d \<noteq> []"
  then obtain c1 d1 where d: "d = c1 # d1" by (cases d) auto
  show False
  proof (cases d1)
    case Nil
    with assms(2) d show False by simp
  next
    case (Cons c2 d2)
    show False
    proof (cases d2)
      case Nil
      with assms(2) d Cons have "s = ''0_'' @ s'" by simp
      then have "startswith s ''0_''" by simp
      with assms(1) show False by (simp add: plain_socket_name_def)
    next
      case (Cons c3 d3)
      with assms(2) d \<open>d1 = c2 # d2\<close> have "s = d3 @ ''_0_'' @ s'" by simp
      then have "contains_str s ''_0_''"
        using contains_str_append [of d3 "''_0_''" s'] by simp
      with assms(1) show False by (simp add: plain_socket_name_def)
    qed
  qed
qed

lemma glsl_reference_injective:
  assumes "plain_socket_name s1" and "plain_socket_name s2"
    and "a @ ''_0_'' @ s1 = b @ ''_0_'' @ s2"
  shows "a = b \<and> s1 = s2"
proof -
  from assms(3) obtain d where
    "(a = b @ d \<and> d @ ''_0_'' @ s1 = ''_0_'' @ s2) \<or> (a @ d = b \<and> ''_0_'' @ s1 = d @ ''_0_'' @ s2)"
    unfolding append_eq_append_conv2 by blast
  then show ?thesis
  proof
    assume h: "a = b @ d \<and> d @ ''_0_'' @ s1 = ''_0_'' @ s2"
    then have "d = []"
      using separator_not_shifted [OF assms(2), of d s1] by simp
    with h show ?thesis by simp
  next
    assume h: "a @ d = b \<and> ''_0_'' @ s1 = d @ ''_0_'' @ s2"
    then have "d = []"
      using separator_not_shifted [OF assms(1), of d s2] by simp
    with h show ?thesis by simp
  qed
qed

text \<open>
  C4, as amended.  For two (node name, socket name) pairs whose socket names are plain
  (no \<open>_0_\<close> inside, no \<open>0_\<close> at the start), or whose sanitized node names have the
  same length (the same node in particular), or whose socket names are equal, the GLSL
  \<open>parameter_reference\<close> and \<open>global_reference\<close> give the same identifier exactly when
  the sanitized node names are equal and the socket names are equal.
\<close>

theorem mangling_injective:
  assumes "(plain_socket_name s1 \<and> plain_socket_name s2) \<or>
           length (get_source_name n1) = length (get_source_name n2) \<or> s1 = s2"
  shows "(parameter_reference GLSLTranspiler (get_source_name n1) s1 =
          parameter_reference GLSLTranspiler (get_source_name n2) s2)
           = (get_source_name n1 = get_source_name n2 \<and> s1 = s2) \<and>
         (global_reference GLSLTranspiler (get_source_name n1) s1 =
          global_reference GLSLTranspiler (get_source_name n2) s2)
           = (get_source_name n1 = get_source_name n2 \<and> s1 = s2)"
proof -
  have inj: "get_source_name n1 = get_source_name n2 \<and> s1 = s2"
    if eq: "get_source_name n1 @ ''_0_'' @ s1 = get_source_name n2 @ ''_0_'' @ s2"
    using assms
  proof (elim disjE conjE)
    assume "plain_socket_name s1" "plain_socket_name s2"
    then show ?thesis using eq by (rule glsl_reference_injective)
  next
    assume "length (get_source_name n1) = length (get_source_name n2)"
    with eq show ?thesis by (simp only: append_eq_same_length same_append_eq)
  next
    assume "s1 = s2"
    with eq show ?thesis by (simp only: append_same_eq append_assoc [symmetric])
  qed
  have p: "(parameter_reference GLSLTranspiler (get_source_name n1) s1 =
          parameter_reference GLSLTranspiler (get_source_name n2) s2)
           = (get_source_name n1 = get_source_name n2 \<and> s1 = s2)"
    using inj by (auto simp only: parameter_reference.simps)
  have "(''U_0'' @ get_source_name n1 @ ''_0_'' @ s1 = ''U_0'' @ get_source_name n2 @ ''_0_'' @ s2)
          = (get_source_name n1 @ ''_0_'' @ s1 = get_source_name n2 @ ''_0_'' @ s2)"
    by (rule same_append_eq)
  then have g: "(global_reference GLSLTranspiler (get_source_name n1) s1 =
          global_reference GLSLTranspiler (get_source_name n2) s2)
           = (get_source_name n1 = get_source_name n2 \<and> s1 = s2)"
    using inj by (auto simp only: global_reference.simps)
  from p g show ?thesis by (rule conjI)
qed

theorem mangling_injective_witness:
  "plain_socket_name ''a'' \<and> plain_socket_name ''b'' \<and>
   parameter_reference GLSLTranspiler (get_source_name ''Mix'') ''a'' \<noteq>
   parameter_reference GLSLTranspiler (get_source_name ''Blend'') ''b'' \<and>
   global_reference GLSLTranspiler (get_source_name ''Mix'') ''a'' \<noteq>
   global_reference GLSLTranspiler (get_source_name ''Blend'') ''b''"
proof -
  have p: "plain_socket_name ''a''" "plain_socket_name ''b''"
    by (simp_all add: plain_socket_name_def)
  have ne: "\<not> (get_source_name ''Mix'' = get_source_name ''Blend'' \<and> ''a'' = ''b'')"
    by simp
  from mangling_injective [OF disjI1 [OF conjI [OF p]], of "''Mix''" "''Blend''"] ne p
  show ?thesis by blast
qed

text \<open>The same for both backends, when the lengths or the socket names agree.\<close>

lemma mangling_injective_same_length:
  assumes "length (get_source_name n1) = length (get_source_name n2) \<or> s1 = s2"
  shows "(parameter_reference t (get_source_name n1) s1 = parameter_reference t (get_source_name n2) s2)
           = (get_source_name n1 = get_source_name n2 \<and> s1 = s2) \<and>
         (global_reference t (get_source_name n1) s1 = global_reference t (get_source_name n2) s2)
           = (get_source_name n1 = get_source_name n2 \<and> s1 = s2)"
  using assms by (cases t) (auto simp: append_eq_same_length)

text \<open>
  The claim as stated fails: the display names \<open>a.b\<close> and \<open>a_b\<close> are distinct and have
  the same source name, so the two pairs get one identifier.
\<close>

theorem mangling_collision:
  "(''a.b'', ''x'') \<noteq> (''a_b'', ''x'') \<and>
   parameter_reference GLSLTranspiler (get_source_name ''a.b'') ''x'' =
   parameter_reference GLSLTranspiler (get_source_name ''a_b'') ''x'' \<and>
   global_reference GLSLTranspiler (get_source_name ''a.b'') ''x'' =
   global_reference GLSLTranspiler (get_source_name ''a_b'') ''x''"
proof -
  have "get_source_name ''a.b'' = ''_a_b''" by code_simp
  moreover have "get_source_name ''a_b'' = ''_a_b''" by code_simp
  ultimately show ?thesis by simp
qed

text \<open>
  Distinct source names collide as well, when a socket name is not plain and overlaps
  the separator \<open>_0_\<close>.
\<close>

lemma mangling_separator_overlap:
  "get_source_name ''a'' \<noteq> get_source_name ''a_0_b'' \<and>
   \<not> plain_socket_name ''b_0_c'' \<and>
   parameter_reference GLSLTranspiler (get_source_name ''a'') ''b_0_c'' =
   parameter_reference GLSLTranspiler (get_source_name ''a_0_b'') ''c''"
proof -
  have "get_source_name ''a'' = ''_a''" by code_simp
  moreover have "get_source_name ''a_0_b'' = ''_a_0_b''" by code_simp
  moreover have "\<not> plain_socket_name ''b_0_c''" by code_simp
  ultimately show ?thesis by simp
qed


section \<open>Socket resolution\<close>

lemmas ex_defs = mk_tree_def mk_node_def mk_link_def malt_socket_def host_socket_def glsl_pipeline_def

lemma get_linked_internal_hop:
  "reroute_hop t s = Some s' \<Longrightarrow> get_linked_internal (Suc k) t s = get_linked_internal k t s'"
  by (auto simp: reroute_hop_def Let_def split: list.splits if_splits)

lemma get_linked_internal_stop:
  "reroute_hop t s = None \<Longrightarrow>
     \<exists>r. get_linked_internal (Suc k) t s = Inr r \<and> (\<forall>x. r = Some x \<longrightarrow> \<not> is_reroute t x)"
  by (auto simp: reroute_hop_def Let_def split: list.splits if_splits)

lemma get_linked_internal_unlinked:
  "socket_links t s = [] \<Longrightarrow> get_linked_internal (Suc k) t s = Inr None"
  by simp

lemma get_linked_internal_direct:
  "socket_links t s = l # ls \<Longrightarrow>
   x = (if is_output (socket_at t s) then to_socket l else from_socket l) \<Longrightarrow>
   \<not> is_reroute t x \<Longrightarrow> get_linked_internal (Suc k) t s = Inr (Some x)"
  by simp

text \<open>Whatever the depth, a result is the unlinked marker or a real socket.\<close>

lemma get_linked_internal_real:
  "get_linked_internal k t s = Inr r \<Longrightarrow> r = Some x \<Longrightarrow> \<not> is_reroute t x"
proof (induction k arbitrary: s)
  case 0
  from "0.prems"(1) show ?case by (simp only: get_linked_internal.simps sum.distinct)
next
  case (Suc k)
  show ?case
  proof (cases "reroute_hop t s")
    case None
    from get_linked_internal_stop [OF None, of k] obtain r'
      where r': "get_linked_internal (Suc k) t s = Inr r'" "\<forall>x. r' = Some x \<longrightarrow> \<not> is_reroute t x"
      by blast
    from r'(1) Suc.prems(1) have "Inr r' = (Inr r :: error + socket_id option)"
      by (rule trans [OF sym])
    then have "r' = r" by (simp only: sum.inject)
    with r'(2) Suc.prems(2) show ?thesis by blast
  next
    case (Some s')
    from Suc.prems(1) have "get_linked_internal k t s' = Inr r"
      by (simp only: get_linked_internal_hop [OF Some])
    from Suc.IH [OF this Suc.prems(2)] show ?thesis .
  qed
qed

text \<open>More depth does not change a result.\<close>

lemma get_linked_internal_stop_eq:
  "reroute_hop t s = None \<Longrightarrow> get_linked_internal (Suc k) t s = get_linked_internal (Suc 0) t s"
  by (auto simp: reroute_hop_def Let_def split: list.splits if_splits)

lemma get_linked_internal_deeper:
  "get_linked_internal k t s = Inr r \<Longrightarrow> get_linked_internal (Suc k) t s = Inr r"
proof (induction k arbitrary: s)
  case 0
  from "0.prems" show ?case by (simp only: get_linked_internal.simps sum.distinct)
next
  case (Suc k)
  show ?case
  proof (cases "reroute_hop t s")
    case None
    have "get_linked_internal (Suc (Suc k)) t s = get_linked_internal (Suc k) t s"
      by (simp only: get_linked_internal_stop_eq [OF None, of "Suc k"]
            get_linked_internal_stop_eq [OF None, of k])
    from this Suc.prems show ?thesis by (rule trans)
  next
    case (Some s')
    from Suc.prems have "get_linked_internal k t s' = Inr r"
      by (simp only: get_linked_internal_hop [OF Some])
    from Suc.IH [OF this] show ?thesis
      by (simp only: get_linked_internal_hop [OF Some])
  qed
qed

text \<open>On a ring of hops the call raises, whatever the depth.\<close>

lemma get_linked_internal_ring:
  assumes ring: "\<And>s. s \<in> C \<Longrightarrow> \<exists>s' \<in> C. reroute_hop g s = Some s'"
  shows "s \<in> C \<Longrightarrow> get_linked_internal k g s = Inl RecursionError"
proof (induction k arbitrary: s)
  case 0
  show ?case by simp
next
  case (Suc k)
  from ring [OF Suc.prems] obtain s' where s': "s' \<in> C" "reroute_hop g s = Some s'"
    by blast
  from Suc.IH [OF s'(1)] show ?case
    by (simp only: get_linked_internal_hop [OF s'(2)])
qed

lemma hops_cycle:
  "reroute_hop reroute_cycle_tree 0 = Some 1"
  "reroute_hop reroute_cycle_tree 1 = Some 3"
  "reroute_hop reroute_cycle_tree 3 = Some 1"
  by (simp_all add: reroute_hop_def socket_links_def is_reroute_def reroute_cycle_tree_def ex_defs)


lemma hops_chain:
  "reroute_hop reroute_chain_tree s = (if s = 0 then Some 1 else if s = 5 then Some 2 else None)"
  by (simp add: reroute_hop_def socket_links_def is_reroute_def reroute_chain_tree_def ex_defs)


lemma get_linked_chain: "get_linked (Suc (Suc k)) reroute_chain_tree 0 = Inr (Some 5)"
proof -
  have "get_linked_internal (Suc k) reroute_chain_tree 1 = Inr (Some 5)"
    by (rule get_linked_internal_direct [where l = "mk_link 5 1" and ls = "[]"])
       (simp_all add: socket_links_def is_reroute_def reroute_chain_tree_def ex_defs)
  then show ?thesis
    using get_linked_internal_hop [of reroute_chain_tree 0 1 "Suc k"]
    by (simp add: get_linked_def hops_chain)
qed


text \<open>A chain that is longer than the depth left raises as well.\<close>

lemma get_linked_chain_too_deep: "get_linked 1 reroute_chain_tree 0 = Inl RecursionError"
  by code_simp

section \<open>Link normalization\<close>

lemma link_mismatch_links [simp]: "link_mismatch (t\<lparr>links := ks\<rparr>) l = link_mismatch t l"
  by (simp add: link_mismatch_def get_data_type_def get_array_size_def)

lemma remove_mismatched_eq:
  "remove_mismatched t ls =
     t\<lparr>links := fold remove1 (filter (\<lambda>l. link_mismatch t l = Inr True) ls) (links t)\<rparr>"
proof (induction ls arbitrary: t)
  case Nil
  show ?case by simp
next
  case (Cons l ls)
  show ?case
    by (cases "link_mismatch t l") (simp_all add: Cons.IH)
qed

lemma fold_remove1_filter:
  "\<forall>y \<in> set ys. \<not> P y \<Longrightarrow>
     fold remove1 (filter P xs) (ys @ xs) = ys @ filter (\<lambda>x. \<not> P x) xs"
proof (induction xs arbitrary: ys)
  case Nil
  show ?case by simp
next
  case (Cons x xs)
  show ?case
  proof (cases "P x")
    case True
    with Cons.prems have "x \<notin> set ys" by blast
    then have "remove1 x (ys @ x # xs) = ys @ xs"
      by (simp add: remove1_append)
    with True Cons.IH [OF Cons.prems] show ?thesis by simp
  next
    case False
    with Cons.prems have "\<forall>y \<in> set (ys @ [x]). \<not> P y" by simp
    from Cons.IH [OF this] False show ?thesis by simp
  qed
qed

lemma links_normalize_links:
  "links (normalize_links t) = filter (\<lambda>l. link_mismatch t l \<noteq> Inr True) (links t)"
  using fold_remove1_filter [of "[]" "\<lambda>l. link_mismatch t l = Inr True" "links t"]
  by (simp add: normalize_links_def remove_mismatched_eq)

lemma normalize_links_eq:
  "normalize_links t = t\<lparr>links := filter (\<lambda>l. link_mismatch t l \<noteq> Inr True) (links t)\<rparr>"
  using links_normalize_links [of t]
  by (simp add: normalize_links_def remove_mismatched_eq)

lemma link_mismatch_malt:
  "is_malt_socket (socket_at t (from_socket l)) \<Longrightarrow> is_malt_socket (socket_at t (to_socket l)) \<Longrightarrow>
   link_mismatch t l =
     Inr (data_type (socket_at t (from_socket l)) \<noteq> data_type (socket_at t (to_socket l)) \<or>
          array_size (socket_at t (from_socket l)) \<noteq> array_size (socket_at t (to_socket l)))"
  by (simp add: link_mismatch_def get_data_type_def get_array_size_def)

text \<open>
  C5, as amended.  After the normalization pass every remaining link between two Malt
  sockets joins sockets of equal data type and equal array size, the sockets are
  untouched, and a second pass changes nothing.
\<close>

theorem normalize_links_type_safe:
  "(\<forall>l \<in> set (links (normalize_links t)).
      is_malt_socket (socket_at t (from_socket l)) \<and> is_malt_socket (socket_at t (to_socket l)) \<longrightarrow>
      link_type_safe (normalize_links t) l) \<and>
   socket_at (normalize_links t) = socket_at t \<and>
   normalize_links (normalize_links t) = normalize_links t"
proof (intro conjI ballI impI)
  show s: "socket_at (normalize_links t) = socket_at t"
    by (simp add: normalize_links_eq)
  show "normalize_links (normalize_links t) = normalize_links t"
    by (simp add: normalize_links_eq)
  fix l
  assume l: "l \<in> set (links (normalize_links t))"
    and m: "is_malt_socket (socket_at t (from_socket l)) \<and> is_malt_socket (socket_at t (to_socket l))"
  from l have "link_mismatch t l \<noteq> Inr True"
    by (simp add: links_normalize_links)
  with m show "link_type_safe (normalize_links t) l"
    by (auto simp: link_mismatch_malt link_type_safe_def s)
qed

theorem normalize_links_type_safe_witness:
  "links (normalize_links mismatch_tree) = [mk_link 3 2] \<and>
   link_type_safe (normalize_links mismatch_tree) (mk_link 3 2) \<and>
   normalize_links (normalize_links mismatch_tree) = normalize_links mismatch_tree"
proof -
  have l: "links (normalize_links mismatch_tree) = [mk_link 3 2]"
    by (simp add: links_normalize_links link_mismatch_def get_data_type_def get_array_size_def
          mismatch_tree_def ex_defs)
  have m: "is_malt_socket (socket_at mismatch_tree (from_socket (mk_link 3 2))) \<and>
           is_malt_socket (socket_at mismatch_tree (to_socket (mk_link 3 2)))"
    by (simp add: mismatch_tree_def ex_defs)
  from normalize_links_type_safe [of mismatch_tree] l m show ?thesis
    by simp
qed

text \<open>
  The claim as stated fails for a link that ends at a reroute socket: the comparison
  raises, the handler keeps the link, and the float output stays wired to the int input
  through the reroute node.
\<close>

theorem normalize_links_keeps_reroute_links:
  "mk_link 5 1 \<in> set (links (normalize_links reroute_chain_tree)) \<and>
   \<not> link_type_safe (normalize_links reroute_chain_tree) (mk_link 5 1) \<and>
   (\<forall>k. get_linked (Suc (Suc k)) (normalize_links reroute_chain_tree) 0 = Inr (Some 5)) \<and>
   data_type (socket_at (normalize_links reroute_chain_tree) 5) = ''float'' \<and>
   data_type (socket_at (normalize_links reroute_chain_tree) 0) = ''int''"
proof -
  have m: "link_mismatch reroute_chain_tree l = Inl AttributeError"
    if "l \<in> set (links reroute_chain_tree)" for l
    using that
    by (auto simp: link_mismatch_def get_data_type_def reroute_chain_tree_def ex_defs)
  have n: "normalize_links reroute_chain_tree = reroute_chain_tree"
    by (simp add: normalize_links_eq reroute_chain_tree_def ex_defs link_mismatch_def get_data_type_def)
  show ?thesis
    unfolding n using get_linked_chain
    by (simp add: link_type_safe_def reroute_chain_tree_def ex_defs)
qed

section \<open>The call emission rule\<close>

lemma glsl_call_loop_eq:
  "length args = length ps \<Longrightarrow>
   glsl_call_loop name (length pre) ps src (pre @ args) =
     Inr (src @ out_declarations name ps args,
          pre @ map (\<lambda>(p, a). if is_out_parameter p
                               then Some (parameter_reference GLSLTranspiler name (p_name p)) else a)
                    (zip ps args))"
proof (induction ps arbitrary: pre args src)
  case Nil
  then show ?case by (simp add: out_declarations_def)
next
  case (Cons p ps)
  then obtain a args' where args: "args = a # args'" "length args' = length ps"
    by (cases args) auto
  have step: "glsl_call_loop name (Suc (length pre)) ps src' ((pre @ [x]) @ args') =
     Inr (src' @ out_declarations name ps args',
          (pre @ [x]) @ map (\<lambda>(p, a). if is_out_parameter p
                               then Some (parameter_reference GLSLTranspiler name (p_name p)) else a)
                    (zip ps args'))" for src' x
    using Cons.IH [OF args(2), of "pre @ [x]" src'] by simp
  show ?case
  proof (cases "is_out_parameter p")
    case True
    then show ?thesis
      using step [of "src @ declaration_stmt GLSLTranspiler (p_type p) (p_size p)
                          (parameter_reference GLSLTranspiler name (p_name p)) a"
                     "Some (parameter_reference GLSLTranspiler name (p_name p))"]
      by (simp add: args out_declarations_def Let_def del: declaration_stmt.simps parameter_reference.simps)
  next
    case False
    then show ?thesis
      using step [of src a]
      by (simp add: args out_declarations_def)
  qed
qed

lemma those_rewritten:
  "length args = length ps \<Longrightarrow>
   list_all (\<lambda>(p, a). is_out_parameter p \<or> a \<noteq> None) (zip ps args) \<Longrightarrow>
   those (map (\<lambda>(p, a). if is_out_parameter p
                          then Some (parameter_reference GLSLTranspiler name (p_name p)) else a)
              (zip ps args)) = Some (rewritten_arguments name ps args)"
proof (induction ps arbitrary: args)
  case Nil
  then show ?case by (simp add: rewritten_arguments_def)
next
  case (Cons p ps)
  then obtain a args' where args: "args = a # args'" "length args' = length ps"
    by (cases args) auto
  with Cons.prems have "list_all (\<lambda>(p, a). is_out_parameter p \<or> a \<noteq> None) (zip ps args')"
    by simp
  from Cons.IH [OF args(2) this] Cons.prems show ?case
    by (auto simp: args rewritten_arguments_def simp del: parameter_reference.simps)
qed

text \<open>
  C7.  For a function descriptor, a node identifier and a list with one entry per
  parameter that holds an expression wherever the parameter is not \<open>out\<close> or
  \<open>inout\<close>, the GLSL \<open>call\<close> emits one declaration per \<open>out\<close>/\<open>inout\<close> parameter, in
  order, initialized from the entry of the caller, and then the call on the rewritten
  arguments: captured in the local \<open>parameter_reference(node_id, "result")\<close> when the
  return type is not \<open>void\<close> and instantiable, a bare statement otherwise.
\<close>

theorem glsl_call_emits:
  assumes "call_arguments_ok function parameters"
  shows "call GLSLTranspiler function name parameters = Inr (call_spec function name parameters)"
proof -
  from assms have len: "length parameters = length (f_parameters function)"
    and ok: "list_all (\<lambda>(p, a). is_out_parameter p \<or> a \<noteq> None) (zip (f_parameters function) parameters)"
    by (simp_all add: call_arguments_ok_def)
  have loop: "glsl_call_loop name 0 (f_parameters function) [] parameters =
     Inr (out_declarations name (f_parameters function) parameters,
          map (\<lambda>(p, a). if is_out_parameter p
                          then Some (parameter_reference GLSLTranspiler name (p_name p)) else a)
              (zip (f_parameters function) parameters))"
    using glsl_call_loop_eq [OF len, of name "[]" "[]"] by simp
  show ?thesis
    by (simp add: glsl_call_def loop join_parameters_def those_rewritten [OF len ok] call_spec_def Let_def
          del: declaration_stmt.simps parameter_reference.simps is_instantiable_type.simps)
qed

lemma str_int_4: "str_int 4 = ''4''" by code_simp

theorem glsl_call_emits_witness:
  "call_arguments_ok blend_function [Some ''a'', Some ''b'', None] \<and>
   call GLSLTranspiler blend_function ''_blend'' [Some ''a'', Some ''b'', None] =
     Inr (''float _blend_0_weights[4] = b;'' @ [nl] @
          ''float _blend_0_mask;'' @ [nl] @
          ''vec4 _blend_0_result = blend(a,_blend_0_weights,_blend_0_mask);'' @ [nl])"
proof -
  have ok: "call_arguments_ok blend_function [Some ''a'', Some ''b'', None]"
    by (simp add: call_arguments_ok_def blend_function_def mk_parameter_def is_out_parameter_def)
  have "call_spec blend_function ''_blend'' [Some ''a'', Some ''b'', None] =
     ''float _blend_0_weights[4] = b;'' @ [nl] @
          ''float _blend_0_mask;'' @ [nl] @
          ''vec4 _blend_0_result = blend(a,_blend_0_weights,_blend_0_mask);'' @ [nl]"
    by (simp add: call_spec_def out_declarations_def rewritten_arguments_def blend_function_def
          mk_parameter_def is_out_parameter_def str_int_4)
  with glsl_call_emits [OF ok, of "''_blend''"] ok show ?thesis
    by simp
qed

section \<open>Release of the updates-disabled flag\<close>

lemma disable_updates_set_node [simp]:
  "disable_updates (set_node_disable_updates n b t) = disable_updates t"
  by (simp add: set_node_disable_updates_def)

lemma node_flag_set_node [simp]:
  "node_disable_updates (node_at (set_node_disable_updates n b t) n) = b"
  by (simp add: set_node_disable_updates_def)

lemma disable_updates_wrapper_resets:
  "\<not> disable_updates (disable_updates_wrapper n function t) \<and>
   \<not> node_disable_updates (node_at (disable_updates_wrapper n function t) n)"
  by (simp add: disable_updates_wrapper_def Let_def split: prod.splits)

text \<open>
  C9.  After the wrapper of a node's setup, init or update, after \<open>reload_nodes\<close> and
  after a recompilation by \<open>MaltTree.update\<close>, the flag \<open>disable_updates\<close> of the tree
  is \<open>False\<close>, whatever the wrapped operation did and whether or not it raised.  (A
  call that stops at the guard at its head runs nothing and leaves the flag as it was.)
\<close>

theorem disable_updates_reset:
  "\<not> disable_updates (disable_updates_wrapper n function t) \<and>
   \<not> node_disable_updates (node_at (disable_updates_wrapper n function t) n) \<and>
   \<not> disable_updates (node_setup malt_setup n t) \<and>
   \<not> disable_updates (node_init malt_init n t) \<and>
   (\<not> node_disable_updates (node_at t n) \<longrightarrow> \<not> disable_updates (node_update malt_update n t)) \<and>
   \<not> disable_updates (reload_nodes malt_setup malt_update t) \<and>
   (\<not> disable_updates t \<longrightarrow> \<not> disable_updates (update k write_source t))"
  by (simp add: disable_updates_wrapper_resets node_setup_def node_init_def node_update_def
        reload_nodes_def update_def Let_def split: prod.splits)

theorem disable_updates_reset_witness:
  "\<not> disable_updates mismatch_tree \<and>
   \<not> node_disable_updates (node_at mismatch_tree 0) \<and>
   \<not> disable_updates (update 5 (\<lambda>source t. (Some OtherError, t)) mismatch_tree) \<and>
   \<not> disable_updates (node_update (\<lambda>n t. (Some KeyError, t)) 0 mismatch_tree)"
proof -
  have a: "\<not> disable_updates mismatch_tree"
    by (simp add: mismatch_tree_def mk_tree_def)
  have b: "\<not> node_disable_updates (node_at mismatch_tree 0)"
    by (simp add: mismatch_tree_def mk_tree_def mk_node_def)
  from disable_updates_reset [where n = 0 and t = mismatch_tree and k = 5
      and malt_update = "\<lambda>n t. (Some KeyError, t)"
      and write_source = "\<lambda>source t. (Some OtherError, t)"] a b
  show ?thesis by blast
qed


section \<open>Source references\<close>

lemma bind_err_simps [simp]:
  "bind_err (Inl e) f = Inl e"
  "bind_err (Inr x) f = f x"
  by (simp_all add: bind_err_def)

lemma linked_socket_unlinked:
  "socket_links t s = [] \<Longrightarrow> linked_socket (Suc k) t s = Inr None"
  by (simp add: linked_socket_def get_linked_def get_linked_internal_unlinked)

lemma linked_socket_direct:
  "socket_links t s = l # ls \<Longrightarrow>
   x = (if is_output (socket_at t s) then to_socket l else from_socket l) \<Longrightarrow>
   \<not> is_reroute t x \<Longrightarrow> linked_socket (Suc k) t s = Inr (Some x)"
  by (simp add: linked_socket_def get_linked_def get_linked_internal_direct)

text \<open>
  What \<open>get_source_reference\<close> does on a linked input of a sampler type, whatever the
  graph: the reference of the linked socket is computed and dropped.
\<close>

lemma get_source_reference_sampler_input:
  assumes "is_malt_socket (socket_at t socket)"
    and "\<not> socket_is_instantiable_type t socket"
    and "\<not> is_output (socket_at t socket)"
    and "linked_socket (Suc k) t socket = Inr (Some l)"
    and "get_source_reference k t l = Inr r"
  shows "get_source_reference (Suc k) t socket = Inr None"
  using assms by (simp add: get_source_reference_step_def)

text \<open>On every other Malt socket it asks the node.\<close>

lemma get_source_reference_other:
  assumes "is_malt_socket (socket_at t socket)"
    and "socket_is_instantiable_type t socket \<or> is_output (socket_at t socket) \<or>
         linked_socket (Suc k) t socket = Inr None"
  shows "get_source_reference (Suc k) t socket =
           bind_err (get_source_socket_reference (get_source_reference k t) (Suc k) t socket)
             (\<lambda>r. Inr (Some r))"
  using assms by (auto simp: get_source_reference_step_def)

text \<open>
  C1: the code falls short of the claim.  The input \<open>tex\<close> of the function node has a
  sampler type and is linked to the output \<open>tex\<close> of the entry node, whose reference is
  \<open>tex\<close>; \<open>get_source_reference\<close> on the input returns \<open>None\<close>.
\<close>

theorem get_source_reference_drops_linked:
  "linked_socket (Suc (Suc k)) sampler_tree 1 = Inr (Some 5) \<and>
   get_source_reference (Suc (Suc k)) sampler_tree 5 = Inr (Some ''tex'') \<and>
   get_source_reference (Suc (Suc k)) sampler_tree 1 = Inr None"
proof (intro conjI)
  show "linked_socket (Suc (Suc k)) sampler_tree 1 = Inr (Some 5)"
    by code_simp
  show "get_source_reference (Suc (Suc k)) sampler_tree 5 = Inr (Some ''tex'')"
    by code_simp
  show "get_source_reference (Suc (Suc k)) sampler_tree 1 = Inr None"
    by code_simp
qed

section \<open>Emission of the exit node\<close>

text \<open>
  C3: the code falls short of the claim.  The exit node of \<open>vec4 PIXEL(out float depth)\<close>
  has the inputs \<open>result\<close> and \<open>depth\<close>, both unlinked.  The result statement returns
  the global reference of \<open>depth\<close>, the last socket of the loop, and not that of
  \<open>result\<close>.
\<close>

theorem io_result_uses_last_socket:
  "get_source_code (Suc k) exit_tree 0 (Some GLSLTranspiler) =
     Inr (''depth = U_0_PIXELOutput_0_depth;'' @ [nl] @
          ''return U_0_PIXELOutput_0_depth;'' @ [nl]) \<and>
   linked_socket (Suc k) exit_tree 0 = Inr None \<and>
   get_source_global_reference exit_tree 0 = Inr ''U_0_PIXELOutput_0_result''"
proof (intro conjI)
  show "get_source_code (Suc k) exit_tree 0 (Some GLSLTranspiler) =
     Inr (''depth = U_0_PIXELOutput_0_depth;'' @ [nl] @
          ''return U_0_PIXELOutput_0_depth;'' @ [nl])"
    by code_simp
  show "linked_socket (Suc k) exit_tree 0 = Inr None"
    by code_simp
  show "get_source_global_reference exit_tree 0 = Inr ''U_0_PIXELOutput_0_result''"
    by code_simp
qed

section \<open>Emission of the array index node\<close>

text \<open>With the \<open>array\<close> input unlinked the emission raises, whatever the graph.\<close>

lemma array_index_unlinked_raises:
  assumes "find_socket t (inputs (node_at t n)) ''array'' = Inr a"
    and "linked_socket k t a = Inr None"
  shows "\<exists>e. array_index_get_source_code ref k t n tr = Inl e"
  using assms
  by (auto simp: array_index_get_source_code_def bind_err_def split: sum.splits)

text \<open>
  C8: the code falls short of the claim.  For an array index node with nothing wired to
  it the schema is the untyped placeholder, and \<open>get_source_code\<close> raises
  \<open>AttributeError\<close> on \<open>array.get_linked().get_source_reference()\<close>.
\<close>

theorem array_index_unlinked:
  "array_index_schema (Suc k) array_index_tree 0 =
     Inr ([(''array'', [], 1), (''index'', ''int'', 0)], [(''element'', [], 0)]) \<and>
   get_source_code (Suc k) array_index_tree 0 (Some GLSLTranspiler) = Inl AttributeError"
proof (intro conjI)
  show "array_index_schema (Suc k) array_index_tree 0 =
     Inr ([(''array'', [], 1), (''index'', ''int'', 0)], [(''element'', [], 0)])"
    by code_simp
  show "get_source_code (Suc k) array_index_tree 0 (Some GLSLTranspiler) = Inl AttributeError"
    by code_simp
qed


section \<open>The walk of the graph compiler\<close>

lemma input_nodes_Cons:
  "input_nodes t (input # rest) =
     (case socket_links t input of [] \<Rightarrow> [] | link # _ \<Rightarrow> [from_node t link]) @ input_nodes t rest"
  by (simp add: input_nodes_def)

lemma walk_post_refl: "walk_inv t w \<Longrightarrow> walk_post t rank b w w"
  by (simp add: walk_post_def)

lemma walk_post_trans:
  "walk_post t rank b w w1 \<Longrightarrow> walk_post t rank b w1 w2 \<Longrightarrow> walk_post t rank b w w2"
  unfolding walk_post_def by blast

text \<open>The step of the loop on a linked input whose node is in the list already.\<close>

lemma walk_post_known:
  assumes "walk_inv t (list, linked)" and "m \<in> set list"
  shows "walk_post t rank b (list, linked)
           (list, if m \<notin> set linked then linked @ [m] else linked)"
  using assms by (auto simp: walk_post_def walk_inv_def)

text \<open>The step of the loop on a linked input whose node is new: visit it, then append it.\<close>

lemma walk_post_new:
  assumes inv: "walk_inv t (list, linked)"
    and new: "m \<notin> set list"
    and rank: "rank m < b"
    and post: "walk_post t rank (rank m) (list, linked) (list', linked')"
    and ups: "set (upstream_nodes t m) \<subseteq> set list'"
  shows "walk_post t rank b (list, linked)
           (list' @ [m], if m \<notin> set linked' then linked' @ [m] else linked')"
proof -
  from post have inv': "distinct list'" "distinct linked'" "closed_upstream t (set list')"
    and sub: "set list \<subseteq> set list'" "set linked \<subseteq> set linked'"
    and added: "set list' - set list \<subseteq> set linked'"
    and ranks: "\<forall>x \<in> set list' - set list. rank x < rank m"
    by (simp_all add: walk_post_def walk_inv_def)
  from ranks new have fresh: "m \<notin> set list'"
    by force
  let ?linked = "if m \<notin> set linked' then linked' @ [m] else linked'"
  have "distinct (list' @ [m])"
    using inv'(1) fresh by simp
  moreover have "distinct ?linked"
    using inv'(2) by simp
  moreover have "closed_upstream t (set (list' @ [m]))"
    using inv'(3) ups by (auto simp: closed_upstream_def)
  moreover have "set list \<subseteq> set (list' @ [m])"
    using sub(1) by auto
  moreover have "set linked \<subseteq> set ?linked"
    using sub(2) by auto
  moreover have "set (list' @ [m]) - set list \<subseteq> set ?linked"
    using added by auto
  moreover have "\<forall>x \<in> set (list' @ [m]) - set list. rank x < b"
  proof
    fix x
    assume "x \<in> set (list' @ [m]) - set list"
    then have "x = m \<or> x \<in> set list' - set list" by auto
    then show "rank x < b"
      using ranks rank by (auto intro: less_trans)
  qed
  ultimately show ?thesis
    by (simp only: walk_post_def walk_inv_def fst_conv snd_conv)
qed

lemma add_inputs_post:
  assumes visit: "\<And>m w. rank m < b \<Longrightarrow> walk_inv t w \<Longrightarrow>
             \<exists>w'. visit m w = Some w' \<and> walk_post t rank (rank m) w w' \<and>
                  set (upstream_nodes t m) \<subseteq> set (fst w')"
    and ranks: "\<And>m. m \<in> set (input_nodes t ins) \<Longrightarrow> rank m < b"
    and inv: "walk_inv t w"
  shows "\<exists>w'. add_inputs visit t ins w = Some w' \<and> walk_post t rank b w w' \<and>
              set (input_nodes t ins) \<subseteq> set (fst w')"
  using ranks inv
proof (induction ins arbitrary: w)
  case Nil
  then show ?case by (simp add: input_nodes_def walk_post_refl)
next
  case (Cons input rest)
  obtain list linked where w: "w = (list, linked)" by (cases w)
  have rest_ranks: "\<And>m. m \<in> set (input_nodes t rest) \<Longrightarrow> rank m < b"
    using Cons.prems(1) by (simp add: input_nodes_Cons)
  show ?case
  proof (cases "socket_links t input")
    case Nil
    with Cons.IH [OF rest_ranks Cons.prems(2)] show ?thesis
      by (simp add: w input_nodes_Cons)
  next
    case (Cons link more)
    define m where "m = from_node t link"
    have m_rank: "rank m < b"
      using Cons.prems(1) [of m] Cons by (simp add: input_nodes_Cons m_def)
    have "\<exists>l1 k1. (if m \<notin> set list then
                   (case visit m (list, linked) of
                      None \<Rightarrow> None
                    | Some (list', linked_nodes') \<Rightarrow> Some (list' @ [m], linked_nodes'))
                 else Some (list, linked)) = Some (l1, k1) \<and>
               walk_post t rank b w (l1, if m \<notin> set k1 then k1 @ [m] else k1) \<and>
               m \<in> set l1"
    proof (cases "m \<in> set list")
      case True
      with walk_post_known [of t list linked m rank b] Cons.prems(2) show ?thesis
        by (auto simp: w)
    next
      case False
      from visit [OF m_rank Cons.prems(2)] obtain list' linked'
        where v: "visit m (list, linked) = Some (list', linked')"
          and p: "walk_post t rank (rank m) (list, linked) (list', linked')"
          and u: "set (upstream_nodes t m) \<subseteq> set list'"
        by (auto simp: w)
      from walk_post_new [OF _ False m_rank p u] Cons.prems(2)
      have "walk_post t rank b w (list' @ [m], if m \<notin> set linked' then linked' @ [m] else linked')"
        by (simp add: w)
      with False v show ?thesis
        by (intro exI [of _ "list' @ [m]"] exI [of _ linked']) (simp split: if_splits)
    qed
    then obtain l1 k1 where
      step: "(if m \<notin> set list then
                   (case visit m (list, linked) of
                      None \<Rightarrow> None
                    | Some (list', linked_nodes') \<Rightarrow> Some (list' @ [m], linked_nodes'))
                 else Some (list, linked)) = Some (l1, k1)"
      and p1: "walk_post t rank b w (l1, if m \<notin> set k1 then k1 @ [m] else k1)"
      and m1: "m \<in> set l1"
      by blast
    from p1 have "walk_inv t (l1, if m \<notin> set k1 then k1 @ [m] else k1)"
      by (simp add: walk_post_def)
    from Cons.IH [OF rest_ranks this] obtain w' where
      r: "add_inputs visit t rest (l1, if m \<notin> set k1 then k1 @ [m] else k1) = Some w'"
      and p2: "walk_post t rank b (l1, if m \<notin> set k1 then k1 @ [m] else k1) w'"
      and u2: "set (input_nodes t rest) \<subseteq> set (fst w')"
      by blast
    have "add_inputs visit t (input # rest) w = Some w'"
      using step r by (simp add: w Cons m_def [symmetric] Let_def del: add_inputs.simps(2))
         (simp add: Cons m_def [symmetric] Let_def)
    moreover have "walk_post t rank b w w'"
      using p1 p2 by (rule walk_post_trans)
    moreover have "set (input_nodes t (input # rest)) \<subseteq> set (fst w')"
      using u2 m1 p2 by (auto simp: input_nodes_Cons Cons m_def walk_post_def)
    ultimately show ?thesis by blast
  qed
qed

lemma add_node_inputs_post:
  assumes acyclic: "\<And>n m. m \<in> set (upstream_nodes t n) \<Longrightarrow> rank m < (rank n :: nat)"
  shows "rank node < k \<Longrightarrow> walk_inv t w \<Longrightarrow>
         \<exists>w'. add_node_inputs k t node w = Some w' \<and> walk_post t rank (rank node) w w' \<and>
              set (upstream_nodes t node) \<subseteq> set (fst w')"
proof (induction k arbitrary: node w)
  case 0
  then show ?case by simp
next
  case (Suc k)
  have visit: "\<exists>w'. add_node_inputs k t m v = Some w' \<and> walk_post t rank (rank m) v w' \<and>
                    set (upstream_nodes t m) \<subseteq> set (fst w')"
    if "rank m < rank node" "walk_inv t v" for m v
    using that Suc.prems(1) by (intro Suc.IH) auto
  have ranks: "rank m < rank node" if "m \<in> set (input_nodes t (inputs (node_at t node)))" for m
    using that acyclic [of m node] by (simp add: upstream_nodes_def)
  from add_inputs_post [of rank "rank node" t "add_node_inputs k t", OF visit ranks Suc.prems(2)]
  show ?case
    by (simp add: upstream_nodes_def)
qed

lemma closed_upstream_reachable:
  assumes "closed_upstream t S" and "set (upstream_nodes t o') \<subseteq> S"
    and "(n, o') \<in> (upstream_rel t)\<^sup>+"
  shows "n \<in> S"
  using assms(3)
proof (induction rule: converse_trancl_induct)
  case (base y)
  with assms(2) show ?case by (auto simp: upstream_rel_def)
next
  case (step y z)
  with assms(1) show ?case by (auto simp: upstream_rel_def closed_upstream_def)
qed

lemma walk_outputs_post:
  assumes acyclic: "\<And>n m. m \<in> set (upstream_nodes t n) \<Longrightarrow> rank m < (rank n :: nat)"
  shows "\<forall>x \<in> set outs. rank x < k \<Longrightarrow> distinct linked \<Longrightarrow>
         \<exists>per linked'. walk_outputs k t outs linked = Some (per, linked') \<and>
            map fst per = outs \<and> distinct linked' \<and> set linked \<subseteq> set linked' \<and>
            (\<forall>(x, ns) \<in> set per. distinct ns \<and> closed_upstream t (set ns) \<and>
                set (upstream_nodes t x) \<subseteq> set ns \<and> set ns \<subseteq> set linked')"
proof (induction outs arbitrary: linked)
  case Nil
  then show ?case by simp
next
  case (Cons x outs)
  have "walk_inv t ([], linked)"
    using Cons.prems(2) by (simp add: walk_inv_def closed_upstream_def)
  with add_node_inputs_post [OF acyclic, where node = x and k = k and w = "([], linked)"] Cons.prems(1)
  obtain ns l1 where a: "add_node_inputs k t x ([], linked) = Some (ns, l1)"
    and p: "walk_post t rank (rank x) ([], linked) (ns, l1)"
    and u: "set (upstream_nodes t x) \<subseteq> set ns"
    by fastforce
  from p have d: "distinct l1" "distinct ns" "closed_upstream t (set ns)"
    "set linked \<subseteq> set l1" "set ns \<subseteq> set l1"
    by (auto simp: walk_post_def walk_inv_def)
  from Cons.IH [OF _ d(1)] Cons.prems(1) obtain per l2 where
    w: "walk_outputs k t outs l1 = Some (per, l2)"
    and q: "map fst per = outs" "distinct l2" "set l1 \<subseteq> set l2"
      "\<forall>(x, ns) \<in> set per. distinct ns \<and> closed_upstream t (set ns) \<and>
          set (upstream_nodes t x) \<subseteq> set ns \<and> set ns \<subseteq> set l2"
    by auto
  show ?case
    using a w q d u by auto
qed

lemma count_list_distinct: "distinct xs \<Longrightarrow> x \<in> set xs \<Longrightarrow> count_list xs x = 1"
  by (induction xs) auto

lemma distinct_output_nodes: "distinct (nodes t) \<Longrightarrow> distinct (output_nodes t)"
  by (simp add: output_nodes_def split: option.splits)


text \<open>
  The texts are concatenations over the lists of the walk: the source of an exit node
  over its emission order, the global block over \<open>linked_nodes\<close>.
\<close>

lemma bind_err_assoc:
  "bind_err (bind_err m f) g = bind_err m (\<lambda>x. bind_err (f x) g)"
  by (cases m) simp_all

lemma nodes_source_code_collect:
  "nodes_source_code k t tr ns code0 =
     bind_err (collect (map (\<lambda>n. get_source_code k t n tr) (filter (is_malt_node t) ns)))
       (\<lambda>codes. Inr (code0 @ concat (map (\<lambda>code. code @ [nl]) codes)))"
proof (induction ns arbitrary: code0)
  case Nil
  show ?case by simp
next
  case (Cons n ns)
  show ?case
  proof (cases "is_malt_node t n")
    case False
    then show ?thesis by (simp add: Cons.IH)
  next
    case True
    show ?thesis
    proof (cases "get_source_code k t n tr")
      case (Inl e)
      with True show ?thesis by simp
    next
      case c: (Inr c)
      show ?thesis
      proof (cases "collect (map (\<lambda>n. get_source_code k t n tr) (filter (is_malt_node t) ns))")
        case (Inl e)
        with True c show ?thesis by (simp add: Cons.IH)
      next
        case (Inr cs)
        with True c show ?thesis by (simp add: Cons.IH)
      qed
    qed
  qed
qed

lemma global_parameters_collect:
  "global_parameters k t tr ns code0 =
     bind_err (collect (map (\<lambda>n. get_source_global_parameters k t n tr) (filter (is_malt_node t) ns)))
       (\<lambda>declarations. Inr (code0 @ concat declarations))"
proof (induction ns arbitrary: code0)
  case Nil
  show ?case by simp
next
  case (Cons n ns)
  show ?case
  proof (cases "is_malt_node t n")
    case False
    then show ?thesis by (simp add: Cons.IH)
  next
    case True
    show ?thesis
    proof (cases "get_source_global_parameters k t n tr")
      case (Inl e)
      with True show ?thesis by simp
    next
      case c: (Inr c)
      show ?thesis
      proof (cases "collect (map (\<lambda>n. get_source_global_parameters k t n tr)
                              (filter (is_malt_node t) ns))")
        case (Inl e)
        with True c show ?thesis by (simp add: Cons.IH)
      next
        case (Inr cs)
        with True c show ?thesis by (simp add: Cons.IH)
      qed
    qed
  qed
qed

lemma get_source_spec:
  "add_node_inputs k t x ([], linked) = Some (ns, linked') \<Longrightarrow>
   get_source k t tr x linked =
     bind_err (root_source_spec k t tr x ns) (\<lambda>src. Inr (src, linked'))"
  by (simp add: get_source_def root_source_spec_def nodes_source_code_collect bind_err_assoc)

lemma get_sources_spec:
  "walk_outputs k t outs linked = Some (per, linked') \<Longrightarrow>
   get_sources k t tr outs linked shader =
     bind_err (root_sources_spec k t tr per shader) (\<lambda>sh. Inr (sh, linked'))"
proof (induction outs arbitrary: linked shader per)
  case Nil
  then show ?case by simp
next
  case (Cons x outs)
  from Cons.prems obtain ns l1 per' where
    a: "add_node_inputs k t x ([], linked) = Some (ns, l1)"
    and w: "walk_outputs k t outs l1 = Some (per', linked')"
    and p: "per = (x, ns) # per'"
    by (auto split: option.splits)
  show ?case
  proof (cases "root_source_spec k t tr x ns")
    case (Inl e)
    then show ?thesis by (simp add: p get_source_spec [OF a])
  next
    case (Inr src)
    then show ?thesis by (simp add: p get_source_spec [OF a] Cons.IH [OF w] fun_upd_def)
  qed
qed

lemma get_generated_source_spec:
  "walk_outputs k t (output_nodes t) (output_nodes t) = Some (per, linked_nodes) \<Longrightarrow>
   get_generated_source k t = generated_source_spec k t per linked_nodes"
  by (simp add: get_generated_source_def generated_source_spec_def global_block_spec_def
        get_sources_spec global_parameters_collect bind_err_assoc)


lemma upstream_nodes_shared:
  "upstream_nodes shared_tree n = (if n = 0 \<or> n = 1 then [2] else [])"
  by (simp add: upstream_nodes_def input_nodes_def socket_links_def from_node_def
        shared_tree_def ex_defs mk_function_def mk_parameter_def)

lemma shared_tree_spec:
  "map_sum id (\<lambda>shader. (shader ''A'', shader ''B'', shader ''GLOBAL''))
     (generated_source_spec 3 shared_tree [(0, [2]), (1, [2])] [0, 1, 2]) =
   Inr (Some (''float _noise_0_result = noise(U_0_noise_0_v);'' @ [nl, nl] @
              ''x = _noise_0_result;'' @ [nl]),
        Some (''float _noise_0_result = noise(U_0_noise_0_v);'' @ [nl, nl] @
              ''y = _noise_0_result;'' @ [nl]),
        Some (''uniform float U_0_noise_0_v;'' @ [nl]))"
  by code_simp


text \<open>
  The walk has no guard against a ring of links.  With the node that two exit nodes
  share wired in a ring with a second node, the walk from the first exit node nests
  without end and the compilation raises \<open>RecursionError\<close>, however deep the calls may
  nest: no text at all is emitted, neither for an exit node nor for \<open>GLOBAL\<close>.
\<close>

lemma shared_cycle_facts:
  "inputs (node_at shared_cycle_tree 0) = [0]"
  "inputs (node_at shared_cycle_tree 2) = [2]"
  "inputs (node_at shared_cycle_tree 3) = [4]"
  "socket_links shared_cycle_tree 0 = [mk_link 3 0]"
  "socket_links shared_cycle_tree 2 = [mk_link 5 2]"
  "socket_links shared_cycle_tree 4 = [mk_link 3 4]"
  "from_node shared_cycle_tree (mk_link 3 0) = 2"
  "from_node shared_cycle_tree (mk_link 5 2) = 3"
  "from_node shared_cycle_tree (mk_link 3 4) = 2"
  by (simp_all add: socket_links_def from_node_def shared_cycle_tree_def ex_defs)

lemma add_node_inputs_ring:
  "2 \<notin> set (fst w) \<Longrightarrow> 3 \<notin> set (fst w) \<Longrightarrow>
   add_node_inputs k shared_cycle_tree 2 w = None \<and> add_node_inputs k shared_cycle_tree 3 w = None"
proof (induction k arbitrary: w)
  case 0
  show ?case by simp
next
  case (Suc k)
  obtain list linked where w: "w = (list, linked)" by (cases w)
  from Suc.prems have n: "2 \<notin> set list" "3 \<notin> set list" by (simp_all add: w)
  from Suc.IH [of "(list, linked)"] n
  have v: "add_node_inputs k shared_cycle_tree 2 (list, linked) = None"
    "add_node_inputs k shared_cycle_tree 3 (list, linked) = None"
    by simp_all
  show ?case
    by (simp add: w shared_cycle_facts n v)
qed

lemma upstream_nodes_shared_cycle:
  "upstream_nodes shared_cycle_tree n =
     (if n = 2 then [3] else [2])"
  by (simp add: upstream_nodes_def input_nodes_def socket_links_def from_node_def
        shared_cycle_tree_def ex_defs)


end
